theory Spec2Isabelle
  imports Complex_Main "HOL-Library.Code_Target_Numeral"
begin

section \<open>Resilient client: the circuit breaker of \<open>safeFetch\<close>\<close>

text \<open>
  The per-URL breaker of the safe-fetch utility. \<open>Date.now()\<close> is an integer number of
  milliseconds and is passed in explicitly; the module-level \<open>Map\<close> of breakers is a
  partial map from URLs to breaker records that every function takes and returns.
\<close>

record CircuitBreakerState =
  failures :: int
  lastFailureTime :: int
  isOpen :: bool

type_synonym breakers = "string \<rightharpoonup> CircuitBreakerState"

definition CIRCUIT_BREAKER_THRESHOLD :: int where
  "CIRCUIT_BREAKER_THRESHOLD = 3"

definition CIRCUIT_BREAKER_TIMEOUT :: int where
  "CIRCUIT_BREAKER_TIMEOUT = 60000"

definition fresh_breaker :: CircuitBreakerState where
  "fresh_breaker = \<lparr>failures = 0, lastFailureTime = 0, isOpen = False\<rparr>"

text \<open>\<open>getCircuitBreaker\<close> creates the entry on first use and returns it.\<close>

definition getCircuitBreaker :: "string \<Rightarrow> breakers \<Rightarrow> CircuitBreakerState \<times> breakers" where
  "getCircuitBreaker url m =
     (case m url of
        None \<Rightarrow> (fresh_breaker, m(url \<mapsto> fresh_breaker))
      | Some b \<Rightarrow> (b, m))"

definition recordFailure :: "string \<Rightarrow> int \<Rightarrow> breakers \<Rightarrow> breakers" where
  "recordFailure url now m =
     (let (breaker, m1) = getCircuitBreaker url m;
          b1 = breaker\<lparr>failures := failures breaker + 1\<rparr>;
          b2 = b1\<lparr>lastFailureTime := now\<rparr>;
          b3 = (if failures b2 \<ge> CIRCUIT_BREAKER_THRESHOLD then b2\<lparr>isOpen := True\<rparr> else b2)
      in m1(url \<mapsto> b3))"

definition recordSuccess :: "string \<Rightarrow> breakers \<Rightarrow> breakers" where
  "recordSuccess url m =
     (let (breaker, m1) = getCircuitBreaker url m
      in m1(url \<mapsto> breaker\<lparr>failures := 0, isOpen := False\<rparr>))"

definition shouldAllowRequest :: "string \<Rightarrow> int \<Rightarrow> breakers \<Rightarrow> bool \<times> breakers" where
  "shouldAllowRequest url now m =
     (let (breaker, m1) = getCircuitBreaker url m
      in if \<not> isOpen breaker then (True, m1)
         else let timeSinceLastFailure = now - lastFailureTime breaker
              in if timeSinceLastFailure > CIRCUIT_BREAKER_TIMEOUT
                 then (True, m1(url \<mapsto> breaker\<lparr>isOpen := False, failures := 0\<rparr>))
                 else (False, m1))"

text \<open>
  What the platform's \<open>fetch\<close> does with one request: it resolves with a response of
  some HTTP status, or it rejects with an error of some \<open>name\<close>. A network failure
  rejects with a \<open>TypeError\<close>. The only abort signal the request carries is
  \<open>AbortSignal.timeout(10000)\<close> (it overrides any signal in the caller's options), and
  that signal aborts with a DOMException named \<open>TimeoutError\<close>.
\<close>

datatype fetch_outcome = Resolved nat | Rejected string

datatype fetch_error = CircuitOpen | FetchError string

text \<open>
  The network is a function from the URL and the time the request starts to the outcome
  and the time the promise settles. The state of the client is the breaker map and the log
  of requests that reached the network.
\<close>

type_synonym network = "string \<Rightarrow> int \<Rightarrow> fetch_outcome \<times> int"

record client =
  circuitBreakers :: breakers
  fetch_log :: "string list"

definition response_ok :: "nat \<Rightarrow> bool" where
  "response_ok status = (200 \<le> status \<and> status \<le> 299)"

definition safeFetch :: "network \<Rightarrow> string \<Rightarrow> int \<Rightarrow> client \<Rightarrow> (fetch_error + nat) \<times> client" where
  "safeFetch net url now c =
     (let (allowed, m1) = shouldAllowRequest url now (circuitBreakers c)
      in if \<not> allowed then (Inl CircuitOpen, c\<lparr>circuitBreakers := m1\<rparr>)
         else let (outcome, settled) = net url now;
                  lg = fetch_log c @ [url]
              in case outcome of
                   Resolved status \<Rightarrow>
                     (Inr status,
                      \<lparr>circuitBreakers =
                         (if response_ok status then recordSuccess url m1
                          else if status \<ge> 500 then recordFailure url settled m1
                          else m1),
                       fetch_log = lg\<rparr>)
                 | Rejected name \<Rightarrow>
                     (Inl (FetchError name),
                      \<lparr>circuitBreakers =
                         (if name = ''AbortError'' \<or> name = ''TypeError''
                          then recordFailure url settled m1 else m1),
                       fetch_log = lg\<rparr>))"

text \<open>\<open>safeFetchJSON\<close> turns every failure and every non-2xx response into \<open>null\<close>.\<close>

definition safeFetchJSON :: "network \<Rightarrow> string \<Rightarrow> int \<Rightarrow> client \<Rightarrow> nat option \<times> client" where
  "safeFetchJSON net url now c =
     (case safeFetch net url now c of
        (Inl e, c1) \<Rightarrow> (None, c1)
      | (Inr status, c1) \<Rightarrow> (if \<not> response_ok status then None else Some status, c1))"

definition resetCircuitBreakers :: "client \<Rightarrow> client" where
  "resetCircuitBreakers c = c\<lparr>circuitBreakers := Map.empty\<rparr>"

text \<open>The breaker of a URL as a reader sees it: a URL without an entry has the fresh one.\<close>

definition breaker_of :: "breakers \<Rightarrow> string \<Rightarrow> CircuitBreakerState" where
  "breaker_of m url = fst (getCircuitBreaker url m)"

text \<open>Recording one failure at each of the given times, in order.\<close>

definition recordFailures :: "string \<Rightarrow> int list \<Rightarrow> breakers \<Rightarrow> breakers" where
  "recordFailures url ts m = fold (recordFailure url) ts m"


section \<open>JavaScript values\<close>

text \<open>
  A JavaScript \<open>number\<close> is modelled as an exact rational or \<open>NaN\<close>; the rounding of
  doubles beyond \<open>2 ^ 53\<close> and the infinities are outside the model. A parsed JSON value is a
  \<open>json\<close>; \<open>undefined\<close> is \<open>None\<close> of \<open>json option\<close>. Strings are lists of 8-bit
  characters.
\<close>

datatype number = Num rat | NaN

datatype json =
    JNull
  | JBool bool
  | JNum rat
  | JStr string
  | JArr "json list"
  | JObj "(string \<times> json) list"

text \<open>The relational operators are false as soon as one side is \<open>NaN\<close>.\<close>

fun num_lt :: "number \<Rightarrow> number \<Rightarrow> bool" where
  "num_lt (Num a) (Num b) = (a < b)"
| "num_lt _ _ = False"

fun num_sub :: "number \<Rightarrow> number \<Rightarrow> number" where
  "num_sub (Num a) (Num b) = Num (a - b)"
| "num_sub _ _ = NaN"

fun num_mul :: "number \<Rightarrow> number \<Rightarrow> number" where
  "num_mul (Num a) (Num b) = Num (a * b)"
| "num_mul _ _ = NaN"

text \<open>
  Division is only ever applied to a divisor that passed the check \<open>limit < 1\<close>, so the
  divisor zero (an infinity or \<open>NaN\<close> in JavaScript) is given as \<open>NaN\<close>.
\<close>

fun num_div :: "number \<Rightarrow> number \<Rightarrow> number" where
  "num_div (Num a) (Num b) = (if b = 0 then NaN else Num (a / b))"
| "num_div _ _ = NaN"

fun Math_ceil :: "number \<Rightarrow> number" where
  "Math_ceil (Num a) = Num (of_int \<lceil>a\<rceil>)"
| "Math_ceil NaN = NaN"

text \<open>\<open>JSON.stringify\<close> writes \<open>NaN\<close> as \<open>null\<close>.\<close>

fun num_json :: "number \<Rightarrow> json" where
  "num_json (Num a) = JNum a"
| "num_json NaN = JNull"

text \<open>Truthiness, as \<open>!x\<close> and \<open>!!x\<close> read it.\<close>

fun truthy :: "json option \<Rightarrow> bool" where
  "truthy None = False"
| "truthy (Some JNull) = False"
| "truthy (Some (JBool b)) = b"
| "truthy (Some (JNum r)) = (r \<noteq> 0)"
| "truthy (Some (JStr s)) = (s \<noteq> [])"
| "truthy (Some (JArr xs)) = True"
| "truthy (Some (JObj kv)) = True"

text \<open>
  Reading a property of a parsed body, as the destructuring assignment does. Reading from
  \<open>null\<close> throws, which the caller handles before it gets here; a boolean, number, string
  or array has none of the message properties.
\<close>

fun get_prop :: "json \<Rightarrow> string \<Rightarrow> json option" where
  "get_prop (JObj kv) k = map_of kv k"
| "get_prop _ k = None"

definition is_whitespace :: "char \<Rightarrow> bool" where
  "is_whitespace c = ((of_char c :: nat) \<in> {9, 10, 11, 12, 13, 32, 160})"

definition trim :: "string \<Rightarrow> string" where
  "trim s = rev (dropWhile is_whitespace (rev (dropWhile is_whitespace s)))"

definition lower_char :: "char \<Rightarrow> char" where
  "lower_char c =
     (if 65 \<le> (of_char c :: nat) \<and> (of_char c :: nat) \<le> 90
      then char_of ((of_char c :: nat) + 32) else c)"

definition toLowerCase :: "string \<Rightarrow> string" where
  "toLowerCase s = map lower_char s"

definition is_hex :: "char \<Rightarrow> bool" where
  "is_hex c =
     (let n = (of_char c :: nat)
      in (48 \<le> n \<and> n \<le> 57) \<or> (97 \<le> n \<and> n \<le> 102) \<or> (65 \<le> n \<and> n \<le> 70))"

text \<open>The regular expression \<open>/^0x[a-fA-F0-9]{40}$/\<close>.\<close>

definition is_address :: "string \<Rightarrow> bool" where
  "is_address s = (length s = 42 \<and> take 2 s = ''0x'' \<and> list_all is_hex (drop 2 s))"

text \<open>
  \<open>parseInt\<close> with no radix: leading white space is skipped, then an optional sign, then an
  optional \<open>0x\<close> which selects base 16, then the longest run of digits of the base; what
  follows is ignored, and no digit at all gives \<open>NaN\<close>.
\<close>

definition digit_val :: "char \<Rightarrow> nat" where
  "digit_val c =
     (let n = (of_char c :: nat)
      in if 48 \<le> n \<and> n \<le> 57 then n - 48
         else if 97 \<le> n \<and> n \<le> 122 then n - 87
         else if 65 \<le> n \<and> n \<le> 90 then n - 55
         else 36)"

definition digits_value :: "nat \<Rightarrow> string \<Rightarrow> nat" where
  "digits_value radix ds = foldl (\<lambda>acc c. acc * radix + digit_val c) 0 ds"

definition parseInt :: "string \<Rightarrow> number" where
  "parseInt s =
     (let s1 = dropWhile is_whitespace s;
          neg = (take 1 s1 = ''-'');
          s2 = (if take 1 s1 = ''-'' \<or> take 1 s1 = ''+'' then drop 1 s1 else s1);
          hex = (take 2 s2 = ''0x'' \<or> take 2 s2 = ''0X'');
          radix = (if hex then 16 else 10);
          s3 = (if hex then drop 2 s2 else s2);
          ds = takeWhile (\<lambda>c. digit_val c < radix) s3
      in if ds = [] then NaN
         else Num (of_int ((if neg then - 1 else 1) * int (digits_value radix ds))))"

text \<open>\<open>searchParams.get(k) || d\<close>: the default replaces a missing and an empty parameter.\<close>

fun or_default :: "string option \<Rightarrow> string \<Rightarrow> string" where
  "or_default None d = d"
| "or_default (Some s) d = (if s = [] then d else s)"


section \<open>The \<open>messages\<close> collection\<close>

text \<open>
  A stored document has the shape of the \<open>Message\<close> interface. \<open>transactionHash\<close> is
  \<open>None\<close> when the document has no such field; \<open>createdAt\<close> is the time value of the
  \<open>Date\<close> in milliseconds. The \<open>_id\<close> that the database adds is not modelled. The same
  record is the argument of \<open>$set\<close>, where \<open>None\<close> says that the update document does
  not mention \<open>transactionHash\<close>.
\<close>

record message =
  messageId :: rat
  sender :: string
  content :: string
  timestamp :: rat
  transactionHash :: "json option"
  createdAt :: int

type_synonym collection = "message list"

record update_result =
  matchedCount :: nat
  modifiedCount :: nat
  upsertedCount :: nat

text \<open>\<open>{ $set: upd }\<close> applied to a stored document: every field of \<open>upd\<close> overwrites.\<close>

definition apply_set :: "message \<Rightarrow> message \<Rightarrow> message" where
  "apply_set upd old =
     old\<lparr>messageId := messageId upd,
         sender := sender upd,
         content := content upd,
         timestamp := timestamp upd,
         transactionHash :=
           (case transactionHash upd of None \<Rightarrow> transactionHash old | Some h \<Rightarrow> Some h),
         createdAt := createdAt upd\<rparr>"

text \<open>
  \<open>updateOne({messageId: mid}, {$set: upd}, {upsert: true})\<close> as the database runs it: the
  first document with this \<open>messageId\<close> is updated and counts as modified when the update
  changed it; when there is none, the document made of the filter and of \<open>upd\<close> is inserted.
\<close>

fun updateOne_upsert :: "rat \<Rightarrow> message \<Rightarrow> collection \<Rightarrow> update_result \<times> collection" where
  "updateOne_upsert mid upd [] =
     (\<lparr>matchedCount = 0, modifiedCount = 0, upsertedCount = 1\<rparr>, [upd])"
| "updateOne_upsert mid upd (d # ds) =
     (if messageId d = mid
      then (\<lparr>matchedCount = 1,
             modifiedCount = (if apply_set upd d = d then 0 else 1),
             upsertedCount = 0\<rparr>,
            apply_set upd d # ds)
      else (let (r, ds') = updateOne_upsert mid upd ds in (r, d # ds')))"

text \<open>An ordered \<open>bulkWrite\<close> of such operations runs them one after the other and adds up.\<close>

fun bulkWrite :: "(rat \<times> message) list \<Rightarrow> collection \<Rightarrow> update_result \<times> collection" where
  "bulkWrite [] coll =
     (\<lparr>matchedCount = 0, modifiedCount = 0, upsertedCount = 0\<rparr>, coll)"
| "bulkWrite ((mid, upd) # ops) coll =
     (let (r1, coll1) = updateOne_upsert mid upd coll;
          (r2, coll2) = bulkWrite ops coll1
      in (\<lparr>matchedCount = matchedCount r1 + matchedCount r2,
           modifiedCount = modifiedCount r1 + modifiedCount r2,
           upsertedCount = upsertedCount r1 + upsertedCount r2\<rparr>, coll2))"

text \<open>The unique index on \<open>messageId\<close> that \<open>createIndexes\<close> asks for.\<close>

definition unique_messageId :: "collection \<Rightarrow> bool" where
  "unique_messageId coll = distinct (map messageId coll)"

text \<open>
  The read side of the storage layer as the handlers meet it: \<open>getMongoDb\<close> resolves or
  throws, and each query resolves with its result or throws (\<open>None\<close>).
\<close>

record storage =
  connects :: bool
  countDocuments :: "string \<Rightarrow> nat option"
  find_sorted :: "string \<Rightarrow> number \<Rightarrow> number \<Rightarrow> message list option"

text \<open>
  The storage layer over a collection that is up. \<open>find({sender}).sort({timestamp: -1})
  .skip(k).limit(l)\<close> is defined for natural \<open>k\<close> and positive natural \<open>l\<close>; the source
  does not say what the database does with other values, and they are taken as an error.
\<close>

definition is_natural :: "rat \<Rightarrow> bool" where
  "is_natural r = (0 \<le> r \<and> of_int \<lfloor>r\<rfloor> = r)"

definition by_sender :: "string \<Rightarrow> collection \<Rightarrow> message list" where
  "by_sender a coll = filter (\<lambda>m. sender m = a) coll"

definition mongo :: "collection \<Rightarrow> storage" where
  "mongo coll =
     \<lparr>connects = True,
      countDocuments = (\<lambda>a. Some (length (by_sender a coll))),
      find_sorted = (\<lambda>a skip lim.
        case (skip, lim) of
          (Num k, Num l) \<Rightarrow>
            if is_natural k \<and> is_natural l \<and> 0 < l
            then Some (take (nat \<lfloor>l\<rfloor>) (drop (nat \<lfloor>k\<rfloor>)
                   (sort_key (\<lambda>m. - timestamp m) (by_sender a coll))))
            else None
        | _ \<Rightarrow> None)\<rparr>"

text \<open>Every call that reaches the storage layer is logged.\<close>

datatype db_op =
    Connect
  | CountDocuments string
  | Find string number number
  | UpdateOne rat

record response =
  status :: nat
  body :: "(string \<times> json) list"

definition message_json :: "message \<Rightarrow> json" where
  "message_json m =
     JObj ([(''messageId'', JNum (messageId m)),
            (''sender'', JStr (sender m)),
            (''content'', JStr (content m)),
            (''timestamp'', JNum (timestamp m))]
           @ (case transactionHash m of None \<Rightarrow> [] | Some h \<Rightarrow> [(''transactionHash'', h)])
           @ [(''createdAt'', JNum (of_int (createdAt m)))])"


section \<open>Query service: \<open>GET /api/messages\<close> and \<open>GET /api/totalmsg/[address]\<close>\<close>

text \<open>The query parameters as \<open>searchParams.get\<close> returns them: \<open>None\<close> is \<open>null\<close>.\<close>

record get_request =
  q_address :: "string option"
  q_count :: "string option"
  q_page :: "string option"
  q_limit :: "string option"

definition failed_list_body :: "string \<Rightarrow> number \<Rightarrow> number \<Rightarrow> (string \<times> json) list" where
  "failed_list_body normalizedAddress page limit =
     [(''success'', JBool False),
      (''error'', JStr ''Failed to fetch messages''),
      (''address'', JStr normalizedAddress),
      (''messages'', JArr []),
      (''pagination'', JObj [(''page'', num_json page),
                             (''limit'', num_json limit),
                             (''total'', JNum 0),
                             (''totalPages'', JNum 0)])]"

definition GET_messages :: "storage \<Rightarrow> get_request \<Rightarrow> response \<times> db_op list" where
  "GET_messages st req =
     (let count = (q_count req = Some ''true'');
          page = parseInt (or_default (q_page req) ''1'');
          limit = parseInt (or_default (q_limit req) ''20'')
      in case q_address req of
           None \<Rightarrow>
             (\<lparr>status = 400,
               body = [(''success'', JBool False),
                       (''error'', JStr ''Address parameter is required''),
                       (''example'', JStr ''/api/messages?address=0x123...&count=true'')]\<rparr>, [])
         | Some address \<Rightarrow>
             if address = [] then
               (\<lparr>status = 400,
                 body = [(''success'', JBool False),
                         (''error'', JStr ''Address parameter is required''),
                         (''example'', JStr ''/api/messages?address=0x123...&count=true'')]\<rparr>, [])
             else if \<not> is_address address then
               (\<lparr>status = 400,
                 body = [(''success'', JBool False),
                         (''error'', JStr ''Invalid Ethereum address format''),
                         (''address'', JStr address)]\<rparr>, [])
             else if num_lt page (Num 1) then
               (\<lparr>status = 400,
                 body = [(''success'', JBool False),
                         (''error'', JStr ''Page must be >= 1''),
                         (''provided'', num_json page)]\<rparr>, [])
             else if num_lt limit (Num 1) \<or> num_lt (Num 100) limit then
               (\<lparr>status = 400,
                 body = [(''success'', JBool False),
                         (''error'', JStr ''Limit must be between 1 and 100''),
                         (''provided'', num_json limit)]\<rparr>, [])
             else
               let normalizedAddress = toLowerCase address
               in if \<not> connects st then
                    (\<lparr>status = 200,
                      body = [(''success'', JBool False),
                              (''error'', JStr ''Database connection failed''),
                              (''message'', JStr ''Unable to connect to database. Please try again later.''),
                              (''address'', JStr normalizedAddress),
                              (''messageCount'', JNum 0)]\<rparr>, [Connect])
                  else if count then
                    (case countDocuments st normalizedAddress of
                       Some messageCount \<Rightarrow>
                         (\<lparr>status = 200,
                           body = [(''success'', JBool True),
                                   (''address'', JStr normalizedAddress),
                                   (''messageCount'', JNum (of_nat messageCount))]\<rparr>,
                          [Connect, CountDocuments normalizedAddress])
                     | None \<Rightarrow>
                         (\<lparr>status = 200,
                           body = [(''success'', JBool False),
                                   (''error'', JStr ''Failed to count messages''),
                                   (''address'', JStr normalizedAddress),
                                   (''messageCount'', JNum 0)]\<rparr>,
                          [Connect, CountDocuments normalizedAddress]))
                  else
                    let skip = num_mul (num_sub page (Num 1)) limit
                    in case find_sorted st normalizedAddress skip limit of
                         None \<Rightarrow>
                           (\<lparr>status = 200, body = failed_list_body normalizedAddress page limit\<rparr>,
                            [Connect, Find normalizedAddress skip limit])
                       | Some messages \<Rightarrow>
                           (case countDocuments st normalizedAddress of
                              None \<Rightarrow>
                                (\<lparr>status = 200,
                                  body = failed_list_body normalizedAddress page limit\<rparr>,
                                 [Connect, Find normalizedAddress skip limit,
                                  CountDocuments normalizedAddress])
                            | Some totalMessages \<Rightarrow>
                                (\<lparr>status = 200,
                                  body = [(''success'', JBool True),
                                          (''address'', JStr normalizedAddress),
                                          (''messages'', JArr (map message_json messages)),
                                          (''pagination'',
                                             JObj [(''page'', num_json page),
                                                   (''limit'', num_json limit),
                                                   (''total'', JNum (of_nat totalMessages)),
                                                   (''totalPages'',
                                                      num_json (Math_ceil
                                                        (num_div (Num (of_nat totalMessages)) limit)))])]\<rparr>,
                                 [Connect, Find normalizedAddress skip limit,
                                  CountDocuments normalizedAddress])))"

text \<open>The path parameter of \<open>/api/totalmsg/[address]\<close>; response headers are not modelled.\<close>

definition invalid_address_response :: "string option \<Rightarrow> response" where
  "invalid_address_response address =
     \<lparr>status = 400,
      body = [(''success'', JBool False),
              (''error'', JStr ''Invalid Ethereum address format''),
              (''address'', JStr (or_default address ''missing'')),
              (''example'', JStr ''/api/totalmsg/0x22D74ADFB45147d7588aFA3ba0eF1c363b7dFcFF''),
              (''totalMessages'', JNum 0)]\<rparr>"

definition GET_totalmsg :: "storage \<Rightarrow> string option \<Rightarrow> response \<times> db_op list" where
  "GET_totalmsg st address =
     (case address of
        None \<Rightarrow> (invalid_address_response address, [])
      | Some a \<Rightarrow>
          if a = [] \<or> \<not> is_address a then (invalid_address_response address, [])
          else
            let normalizedAddress = toLowerCase a
            in if \<not> connects st then
                 (\<lparr>status = 200,
                   body = [(''success'', JBool False),
                           (''error'', JStr ''Database connection failed''),
                           (''address'', JStr normalizedAddress),
                           (''totalMessages'', JNum 0),
                           (''message'', JStr ''Unable to fetch message count at this time'')]\<rparr>,
                  [Connect])
               else
                 case countDocuments st normalizedAddress of
                   Some totalMessages \<Rightarrow>
                     (\<lparr>status = 200,
                       body = [(''success'', JBool True),
                               (''address'', JStr normalizedAddress),
                               (''totalMessages'', JNum (of_nat totalMessages))]\<rparr>,
                      [Connect, CountDocuments normalizedAddress])
                 | None \<Rightarrow>
                     (\<lparr>status = 200,
                       body = [(''success'', JBool False),
                               (''error'', JStr ''Failed to count messages''),
                               (''address'', JStr normalizedAddress),
                               (''totalMessages'', JNum 0)]\<rparr>,
                      [Connect, CountDocuments normalizedAddress]))"


section \<open>Ingestion endpoint: \<open>POST /api/messages\<close>\<close>

text \<open>
  What the storage layer does to a write: \<open>getMongoDb\<close> resolves or throws, and
  \<open>updateOne\<close> runs or throws an error with an optional numeric \<open>code\<close> and a message.
\<close>

datatype db_error = DbError "int option" string

record write_env =
  w_connects :: bool
  w_update_error :: "db_error option"

text \<open>
  A \<open>TypeError\<close> thrown inside the handler reaches the outer \<open>catch\<close>; the \<open>message\<close>
  field of that response carries the engine's text and is left out.
\<close>

definition internal_error_response :: response where
  "internal_error_response =
     \<lparr>status = 500,
      body = [(''success'', JBool False), (''error'', JStr ''Internal server error'')]\<rparr>"

definition missing_fields_response ::
  "json option \<Rightarrow> json option \<Rightarrow> json option \<Rightarrow> json option \<Rightarrow> response" where
  "missing_fields_response mid snd_v con ts =
     \<lparr>status = 400,
      body = [(''success'', JBool False),
              (''error'', JStr ''Missing required fields: messageId, sender, content, timestamp''),
              (''received'', JObj [(''messageId'', JBool (truthy mid)),
                                   (''sender'', JBool (truthy snd_v)),
                                   (''content'', JBool (truthy con)),
                                   (''timestamp'', JBool (truthy ts))])]\<rparr>"

fun typeof :: "json option \<Rightarrow> string" where
  "typeof None = ''undefined''"
| "typeof (Some (JBool b)) = ''boolean''"
| "typeof (Some (JNum r)) = ''number''"
| "typeof (Some (JStr s)) = ''string''"
| "typeof (Some _) = ''object''"

definition bad_request :: "string \<Rightarrow> response" where
  "bad_request msg = \<lparr>status = 400, body = [(''success'', JBool False), (''error'', JStr msg)]\<rparr>"

text \<open>
  The driver writes an \<open>undefined\<close> field of the update document as \<open>null\<close>, so the
  \<open>$set\<close> of the handler always mentions \<open>transactionHash\<close>.
\<close>

definition messageDoc :: "rat \<Rightarrow> string \<Rightarrow> string \<Rightarrow> rat \<Rightarrow> json option \<Rightarrow> int \<Rightarrow> message" where
  "messageDoc mid sender_s content_s ts transactionHash_v now =
     \<lparr>messageId = mid,
      sender = toLowerCase sender_s,
      content = trim content_s,
      timestamp = ts,
      transactionHash = Some (case transactionHash_v of None \<Rightarrow> JNull | Some h \<Rightarrow> h),
      createdAt = now\<rparr>"

text \<open>
  The body is \<open>None\<close> when \<open>request.json()\<close> throws. \<open>now\<close> is the time \<open>new Date()\<close>
  reads. The result is the response, the storage calls made, and the collection afterwards.
\<close>

definition POST_messages ::
  "write_env \<Rightarrow> int \<Rightarrow> json option \<Rightarrow> collection \<Rightarrow> response \<times> db_op list \<times> collection" where
  "POST_messages env now parsed coll =
     (case parsed of
        None \<Rightarrow> (bad_request ''Invalid JSON in request body'', [], coll)
      | Some JNull \<Rightarrow> (internal_error_response, [], coll)
      | Some b \<Rightarrow>
          let messageId_v = get_prop b ''messageId'';
              sender_v = get_prop b ''sender'';
              content_v = get_prop b ''content'';
              timestamp_v = get_prop b ''timestamp'';
              transactionHash_v = get_prop b ''transactionHash''
          in if \<not> truthy messageId_v \<or> \<not> truthy sender_v \<or> \<not> truthy content_v
                  \<or> \<not> truthy timestamp_v
             then (missing_fields_response messageId_v sender_v content_v timestamp_v, [], coll)
             else
               case messageId_v of
                 Some (JNum mid) \<Rightarrow>
                   (case sender_v of
                      Some (JStr sender_s) \<Rightarrow>
                        if \<not> is_address sender_s then
                          (\<lparr>status = 400,
                            body = [(''success'', JBool False),
                                    (''error'', JStr ''Invalid Ethereum address format for sender''),
                                    (''sender'', JStr sender_s)]\<rparr>, [], coll)
                        else
                          (case content_v of
                             Some (JStr content_s) \<Rightarrow>
                               if length (trim content_s) = 0 then
                                 (bad_request ''content must be a non-empty string'', [], coll)
                               else
                                 (case timestamp_v of
                                    Some (JNum ts) \<Rightarrow>
                                      if ts \<le> 0 then
                                        (bad_request ''timestamp must be a positive number'', [], coll)
                                      else if \<not> w_connects env then
                                        (\<lparr>status = 503,
                                          body = [(''success'', JBool False),
                                                  (''error'', JStr ''Database connection failed''),
                                                  (''message'', JStr ''Unable to connect to database. Message not saved.'')]\<rparr>,
                                         [Connect], coll)
                                      else
                                        let doc = messageDoc mid sender_s content_s ts transactionHash_v now
                                        in (case w_update_error env of
                                              Some (DbError code msg) \<Rightarrow>
                                                if code = Some 11000 then
                                                  (\<lparr>status = 409,
                                                    body = [(''success'', JBool False),
                                                            (''error'', JStr ''Message with this ID already exists''),
                                                            (''messageId'', JNum mid)]\<rparr>,
                                                   [Connect, UpdateOne mid], coll)
                                                else
                                                  (\<lparr>status = 503,
                                                    body = [(''success'', JBool False),
                                                            (''error'', JStr ''Failed to save message''),
                                                            (''message'', JStr msg)]\<rparr>,
                                                   [Connect, UpdateOne mid], coll)
                                            | None \<Rightarrow>
                                                let (result, coll1) = updateOne_upsert mid doc coll
                                                in (\<lparr>status = 200,
                                                     body = [(''success'', JBool True),
                                                             (''messageId'', JNum mid),
                                                             (''inserted'', JBool (upsertedCount result > 0)),
                                                             (''updated'', JBool (modifiedCount result > 0)),
                                                             (''message'',
                                                                JStr (if upsertedCount result > 0
                                                                      then ''Message saved successfully''
                                                                      else ''Message updated successfully''))]\<rparr>,
                                                    [Connect, UpdateOne mid], coll1))
                                  | _ \<Rightarrow> (bad_request ''timestamp must be a positive number'', [], coll))
                           | _ \<Rightarrow> (bad_request ''content must be a non-empty string'', [], coll))
                    | _ \<Rightarrow> (internal_error_response, [], coll))
               | _ \<Rightarrow>
                   (\<lparr>status = 400,
                     body = [(''success'', JBool False),
                             (''error'', JStr ''messageId must be a number''),
                             (''received'', JStr (typeof messageId_v))]\<rparr>, [], coll))"


section \<open>Reconciler: \<open>scripts/sync-messages.js\<close>\<close>

text \<open>
  Modelled from the spec: the chain reader is the deployed contract, which is not part of
  the sources. The ledger is an append-only sequence of records; \<open>getTotalMessageCount\<close>
  is its length and \<open>getMessages(start, count)\<close> is the run of up to \<open>count\<close> records
  that starts at offset \<open>start\<close>. The numeric fields are unsigned integers.
\<close>

record chain_message =
  c_messageId :: nat
  c_sender :: string
  c_content :: string
  c_timestamp :: nat

type_synonym ledger = "chain_message list"

definition getTotalMessageCount :: "ledger \<Rightarrow> nat" where
  "getTotalMessageCount l = length l"

definition getMessages :: "ledger \<Rightarrow> nat \<Rightarrow> nat \<Rightarrow> chain_message list" where
  "getMessages l start count = take count (drop start l)"

definition BATCH_SIZE :: nat where
  "BATCH_SIZE = 50"

text \<open>
  \<open>Number(x)\<close> of a ledger integer is the double nearest to it, ties going to the even
  significand. Below \<open>2 ^ 53\<close> the integer is kept; from there on it is rounded to 53
  significant bits. The ledger's integers are below \<open>2 ^ 256\<close>, far from overflow.
\<close>

fun bit_length :: "nat \<Rightarrow> nat" where
  "bit_length n = (if n = 0 then 0 else Suc (bit_length (n div 2)))"

declare bit_length.simps [simp del]

definition to_double :: "nat \<Rightarrow> nat" where
  "to_double n =
     (if n < 2 ^ 53 then n
      else
        let e = bit_length n - 53;
            q = n div 2 ^ e;
            r = n mod 2 ^ e;
            half = 2 ^ (e - 1)
        in (if half < r \<or> (r = half \<and> odd q) then q + 1 else q) * 2 ^ e)"

definition Number_bigint :: "nat \<Rightarrow> rat" where
  "Number_bigint n = of_nat (to_double n)"

text \<open>
  \<open>new Date(Number(x) * 1000)\<close>: the product is a double again, and a time value beyond
  8.64e15 ms makes the date invalid. The source does not say what the driver stores for an
  invalid date; it is taken as the time value 0.
\<close>

definition Date_of_seconds :: "nat \<Rightarrow> int" where
  "Date_of_seconds x =
     (let ms = to_double (to_double x * 1000)
      in if ms \<le> 8640000000000000 then int ms else 0)"

text \<open>The document the script builds for one ledger record; it has no \<open>transactionHash\<close>.\<close>

definition sync_messageDoc :: "chain_message \<Rightarrow> message" where
  "sync_messageDoc msg =
     \<lparr>messageId = Number_bigint (c_messageId msg),
      sender = toLowerCase (c_sender msg),
      content = c_content msg,
      timestamp = Number_bigint (c_timestamp msg),
      transactionHash = None,
      createdAt = Date_of_seconds (c_timestamp msg)\<rparr>"

definition bulkOps_of :: "chain_message list \<Rightarrow> (rat \<times> message) list" where
  "bulkOps_of messages = map (\<lambda>msg. (messageId (sync_messageDoc msg), sync_messageDoc msg)) messages"

record sync_counts =
  syncedCount :: int
  updatedCount :: int
  skippedCount :: int

definition add_result :: "sync_counts \<Rightarrow> update_result \<Rightarrow> sync_counts" where
  "add_result acc result =
     \<lparr>syncedCount = syncedCount acc + int (upsertedCount result),
      updatedCount = updatedCount acc + int (modifiedCount result),
      skippedCount = skippedCount acc + (int (matchedCount result) - int (modifiedCount result))\<rparr>"

text \<open>The loop \<open>for (let start = 0; start < messageCount; start += BATCH_SIZE)\<close>.\<close>

function sync_batches ::
  "ledger \<Rightarrow> nat \<Rightarrow> nat \<Rightarrow> sync_counts \<Rightarrow> collection \<Rightarrow> sync_counts \<times> collection" where
  "sync_batches l messageCount start acc coll =
     (if start < messageCount then
        (let count = min BATCH_SIZE (messageCount - start);
             messages = getMessages l start count;
             bulkOps = bulkOps_of messages;
             step = (if bulkOps \<noteq> []
                     then (let (result, coll1) = bulkWrite bulkOps coll
                           in (add_result acc result, coll1))
                     else (acc, coll))
         in sync_batches l messageCount (start + BATCH_SIZE) (fst step) (snd step))
      else (acc, coll))"
  by pat_completeness auto
termination
  by (relation "measure (\<lambda>(l, messageCount, start, acc, coll). messageCount - start)")
     (auto simp: BATCH_SIZE_def)

declare sync_batches.simps [simp del]

datatype sync_error = ChainUnavailable | StorageUnavailable

record sync_env =
  rpc_up :: bool
  mongo_up :: bool

record sync_report =
  totalOnChain :: nat
  inserted :: int
  updated :: int
  unchanged :: int
  uniqueSenders :: nat

text \<open>
  One run of the script over a ledger and a collection. A failure of the chain or of the
  database ends the run with an error; an empty ledger ends it before the database is
  opened, with no summary.
\<close>

definition syncMessages ::
  "sync_env \<Rightarrow> ledger \<Rightarrow> collection \<Rightarrow> (sync_error + sync_report option) \<times> collection" where
  "syncMessages env l coll =
     (if \<not> rpc_up env then (Inl ChainUnavailable, coll)
      else
        let messageCount = to_double (getTotalMessageCount l)
        in if messageCount = 0 then (Inr None, coll)
           else if \<not> mongo_up env then (Inl StorageUnavailable, coll)
           else
             let (counts, coll1) =
                   sync_batches l messageCount 0
                     \<lparr>syncedCount = 0, updatedCount = 0, skippedCount = 0\<rparr> coll
             in (Inr (Some \<lparr>totalOnChain = messageCount,
                            inserted = syncedCount counts,
                            updated = updatedCount counts,
                            unchanged = skippedCount counts,
                            uniqueSenders = length (remdups (map sender coll1))\<rparr>),
                 coll1))"


section \<open>Fixtures\<close>

text \<open>Networks that answer every request in one millisecond, for the concrete runs below.\<close>

definition net_status :: "nat \<Rightarrow> network" where
  "net_status st url now = (Resolved st, now + 1)"

definition net_reject :: "string \<Rightarrow> network" where
  "net_reject name url now = (Rejected name, now + 1)"


section \<open>Properties of the circuit breaker\<close>

lemma breaker_of_upd [simp]: "breaker_of (m(url \<mapsto> b)) url = b"
  by (simp add: breaker_of_def getCircuitBreaker_def)

lemma breaker_of_empty [simp]: "breaker_of Map.empty url = fresh_breaker"
  by (simp add: breaker_of_def getCircuitBreaker_def)

lemma breaker_of_recordFailure:
  "breaker_of (recordFailure url now m) url =
     \<lparr>failures = failures (breaker_of m url) + 1, lastFailureTime = now,
      isOpen = (isOpen (breaker_of m url) \<or> 3 \<le> failures (breaker_of m url) + 1)\<rparr>"
  by (auto simp: recordFailure_def breaker_of_def getCircuitBreaker_def fresh_breaker_def
        CIRCUIT_BREAKER_THRESHOLD_def Let_def split: option.splits)

lemma breaker_of_recordSuccess:
  "breaker_of (recordSuccess url m) url = (breaker_of m url)\<lparr>failures := 0, isOpen := False\<rparr>"
  by (auto simp: recordSuccess_def breaker_of_def getCircuitBreaker_def split: option.splits)

lemma recordFailures_open:
  "0 \<le> failures (breaker_of m url) \<Longrightarrow>
   isOpen (breaker_of (recordFailures url ts m) url) =
     (isOpen (breaker_of m url) \<or> (ts \<noteq> [] \<and> 3 \<le> failures (breaker_of m url) + int (length ts)))"
  unfolding recordFailures_def
proof (induction ts arbitrary: m)
  case Nil
  then show ?case by simp
next
  case (Cons t ts)
  have "0 \<le> failures (breaker_of (recordFailure url t m) url)"
    using Cons.prems by (simp add: breaker_of_recordFailure)
  from Cons.IH[OF this] show ?case
    using Cons.prems by (auto simp add: breaker_of_recordFailure)
qed

lemma safeFetch_fail_fast:
  assumes "isOpen (breaker_of (circuitBreakers c) url)"
    and "now - lastFailureTime (breaker_of (circuitBreakers c) url) \<le> 60000"
  shows "safeFetch net url now c = (Inl CircuitOpen, c)"
  using assms
  by (auto simp: safeFetch_def shouldAllowRequest_def breaker_of_def getCircuitBreaker_def
      fresh_breaker_def CIRCUIT_BREAKER_TIMEOUT_def Let_def split: option.splits)

lemma shouldAllowRequest_reset:
  assumes "isOpen (breaker_of m url)"
    and "CIRCUIT_BREAKER_TIMEOUT < now - lastFailureTime (breaker_of m url)"
  shows "shouldAllowRequest url now m =
           (True, m(url \<mapsto> (breaker_of m url)\<lparr>isOpen := False, failures := 0\<rparr>))"
  using assms
  by (auto simp: shouldAllowRequest_def breaker_of_def getCircuitBreaker_def fresh_breaker_def
        Let_def split: option.splits)

lemma safeFetch_after_cooldown:
  assumes "isOpen (breaker_of (circuitBreakers c) url)"
    and "CIRCUIT_BREAKER_TIMEOUT < now - lastFailureTime (breaker_of (circuitBreakers c) url)"
    and "net url now = (outcome, settled)"
  shows "safeFetch net url now c =
     (let m1 = (circuitBreakers c)
                 (url \<mapsto> (breaker_of (circuitBreakers c) url)\<lparr>isOpen := False, failures := 0\<rparr>)
      in case outcome of
           Resolved st \<Rightarrow>
             (Inr st, \<lparr>circuitBreakers =
                         (if response_ok st then recordSuccess url m1
                          else if st \<ge> 500 then recordFailure url settled m1 else m1),
                      fetch_log = fetch_log c @ [url]\<rparr>)
         | Rejected name \<Rightarrow>
             (Inl (FetchError name),
              \<lparr>circuitBreakers = (if name = ''AbortError'' \<or> name = ''TypeError''
                                   then recordFailure url settled m1 else m1),
               fetch_log = fetch_log c @ [url]\<rparr>))"
  using assms by (simp add: safeFetch_def shouldAllowRequest_reset Let_def)

text \<open>
  Claim C3. For every URL: starting from a closed breaker with no recorded failure, the
  breaker is open after a run of recorded failures exactly when the run has at least three
  of them; and while the breaker is open and no more than the cool-down of 60000 ms has
  passed since the last recorded failure, \<open>safeFetch\<close> fails with the circuit-open error,
  leaves the state as it is and sends nothing to the network (the request log is unchanged).
\<close>

theorem breaker_opens_at_threshold_and_fails_fast:
  "(\<not> isOpen (breaker_of m url) \<and> failures (breaker_of m url) = 0 \<longrightarrow>
      (isOpen (breaker_of (recordFailures url ts m) url) \<longleftrightarrow> 3 \<le> length ts))
   \<and> (isOpen (breaker_of (circuitBreakers c) url)
        \<and> now - lastFailureTime (breaker_of (circuitBreakers c) url) \<le> CIRCUIT_BREAKER_TIMEOUT \<longrightarrow>
      safeFetch net url now c = (Inl CircuitOpen, c))"
  using recordFailures_open[of m url ts] safeFetch_fail_fast[of c url now net]
  by (auto simp: CIRCUIT_BREAKER_TIMEOUT_def)

theorem breaker_opens_at_threshold_and_fails_fast_witness:
  "isOpen (breaker_of (recordFailures ''api'' [1, 2, 3] Map.empty) ''api'')
   \<and> safeFetch (net_status 200) ''api'' 2000
        \<lparr>circuitBreakers = [''api'' \<mapsto> \<lparr>failures = 3, lastFailureTime = 1000, isOpen = True\<rparr>],
         fetch_log = []\<rparr>
       = (Inl CircuitOpen,
          \<lparr>circuitBreakers = [''api'' \<mapsto> \<lparr>failures = 3, lastFailureTime = 1000, isOpen = True\<rparr>],
           fetch_log = []\<rparr>)"
  using breaker_opens_at_threshold_and_fails_fast
    [of Map.empty "''api''" "[1, 2, 3]"
        "\<lparr>circuitBreakers = [''api'' \<mapsto> \<lparr>failures = 3, lastFailureTime = 1000, isOpen = True\<rparr>],
          fetch_log = []\<rparr>" 2000 "net_status 200"]
  by (simp add: fresh_breaker_def CIRCUIT_BREAKER_TIMEOUT_def)

text \<open>
  Claim C2, as the code has it. For every URL whose breaker is open, once more than
  60000 ms have passed since the last recorded failure, \<open>shouldAllowRequest\<close> lets the call
  through and resets the breaker to closed with the failure counter at 0 before the request
  is sent. If the request then succeeds the breaker stays closed with the counter at 0; if it
  is recorded as a failure, the counter is 1, the failure clock is the time the request
  settled, and the breaker stays closed.
\<close>

theorem cooldown_resets_breaker_to_closed:
  assumes "isOpen (breaker_of (circuitBreakers c) url)"
    and "CIRCUIT_BREAKER_TIMEOUT < now - lastFailureTime (breaker_of (circuitBreakers c) url)"
    and "net url now = (outcome, settled)"
  shows "fst (shouldAllowRequest url now (circuitBreakers c))
    \<and> breaker_of (snd (shouldAllowRequest url now (circuitBreakers c))) url =
         (breaker_of (circuitBreakers c) url)\<lparr>isOpen := False, failures := 0\<rparr>
    \<and> fetch_log (snd (safeFetch net url now c)) = fetch_log c @ [url]
    \<and> ((\<exists>st. outcome = Resolved st \<and> response_ok st) \<longrightarrow>
         breaker_of (circuitBreakers (snd (safeFetch net url now c))) url =
           (breaker_of (circuitBreakers c) url)\<lparr>isOpen := False, failures := 0\<rparr>)
    \<and> ((\<exists>st. outcome = Resolved st \<and> 500 \<le> st) \<or> outcome = Rejected ''AbortError''
          \<or> outcome = Rejected ''TypeError'' \<longrightarrow>
         breaker_of (circuitBreakers (snd (safeFetch net url now c))) url =
           \<lparr>failures = 1, lastFailureTime = settled, isOpen = False\<rparr>)"
  using assms
  by (auto simp: safeFetch_after_cooldown shouldAllowRequest_reset Let_def breaker_of_recordFailure
        breaker_of_recordSuccess response_ok_def split: fetch_outcome.splits)

theorem cooldown_resets_breaker_to_closed_witness:
  "breaker_of (circuitBreakers (snd (safeFetch (net_status 503) ''api'' 60001
      \<lparr>circuitBreakers = [''api'' \<mapsto> \<lparr>failures = 3, lastFailureTime = 0, isOpen = True\<rparr>],
       fetch_log = []\<rparr>))) ''api''
   = \<lparr>failures = 1, lastFailureTime = 60002, isOpen = False\<rparr>"
  using cooldown_resets_breaker_to_closed
    [of "\<lparr>circuitBreakers = [''api'' \<mapsto> \<lparr>failures = 3, lastFailureTime = 0, isOpen = True\<rparr>],
          fetch_log = []\<rparr>" "''api''" 60001 "net_status 503" "Resolved 503" 60002]
  by (simp add: net_status_def CIRCUIT_BREAKER_TIMEOUT_def)

text \<open>
  Claim C2 as stated fails. The breaker of \<open>api\<close> is open with its last failure at time 0.
  The call at 60001 is let through and answered with status 503 at 60002. The breaker is
  then closed, not open, and the call at 60003 reaches the network as well: two requests
  were sent, not one.
\<close>

theorem failed_probe_leaves_breaker_closed:
  "fst (safeFetch (net_status 503) ''api'' 60003
         (snd (safeFetch (net_status 503) ''api'' 60001
            \<lparr>circuitBreakers = [''api'' \<mapsto> \<lparr>failures = 3, lastFailureTime = 0, isOpen = True\<rparr>],
             fetch_log = []\<rparr>))) = Inr 503
   \<and> fetch_log (snd (safeFetch (net_status 503) ''api'' 60003
         (snd (safeFetch (net_status 503) ''api'' 60001
            \<lparr>circuitBreakers = [''api'' \<mapsto> \<lparr>failures = 3, lastFailureTime = 0, isOpen = True\<rparr>],
             fetch_log = []\<rparr>)))) = [''api'', ''api'']
   \<and> \<not> isOpen (breaker_of (circuitBreakers (snd (safeFetch (net_status 503) ''api'' 60001
            \<lparr>circuitBreakers = [''api'' \<mapsto> \<lparr>failures = 3, lastFailureTime = 0, isOpen = True\<rparr>],
             fetch_log = []\<rparr>))) ''api'')"
  by (simp add: safeFetch_def shouldAllowRequest_def getCircuitBreaker_def net_status_def
        recordFailure_def response_ok_def CIRCUIT_BREAKER_TIMEOUT_def CIRCUIT_BREAKER_THRESHOLD_def
        breaker_of_def Let_def)

text \<open>
  Claim C4 at a request that times out. The rejection carries the name \<open>TimeoutError\<close>,
  which the \<open>catch\<close> block does not test for: the error is rethrown and the breaker is
  left fresh, with no failure recorded. A rejection named \<open>TypeError\<close> is recorded.
\<close>

theorem timeout_rejection_is_not_recorded:
  "breaker_of (circuitBreakers (snd (safeFetch (net_reject ''TimeoutError'') ''api'' 0
      \<lparr>circuitBreakers = Map.empty, fetch_log = []\<rparr>))) ''api'' = fresh_breaker
   \<and> fst (safeFetch (net_reject ''TimeoutError'') ''api'' 0
      \<lparr>circuitBreakers = Map.empty, fetch_log = []\<rparr>) = Inl (FetchError ''TimeoutError'')
   \<and> failures (breaker_of (circuitBreakers (snd (safeFetch (net_reject ''TypeError'') ''api'' 0
      \<lparr>circuitBreakers = Map.empty, fetch_log = []\<rparr>))) ''api'') = 1"
  by (simp add: safeFetch_def shouldAllowRequest_def getCircuitBreaker_def net_reject_def
        recordFailure_def fresh_breaker_def CIRCUIT_BREAKER_THRESHOLD_def
        breaker_of_def Let_def)


section \<open>Properties of the query service\<close>

lemma is_address_nonempty: "is_address a \<Longrightarrow> a \<noteq> []"
  by (auto simp: is_address_def)

lemma example_address_ok: "is_address ''0x22D74ADFB45147d7588aFA3ba0eF1c363b7dFcFF''"
  by code_simp

lemma example_address_lower: "toLowerCase ''0x22D74ADFB45147d7588aFA3ba0eF1c363b7dFcFF'' = ''0x22d74adfb45147d7588afa3ba0ef1c363b7dfcff''"
  by code_simp

lemma parseInt_abc: "parseInt ''abc'' = NaN"
  by code_simp

lemma parseInt_1: "parseInt ''1'' = Num 1"
  by code_simp

lemma parseInt_2: "parseInt ''2'' = Num 2"
  by code_simp

lemma parseInt_20: "parseInt ''20'' = Num 20"
  by code_simp

lemma if_NaN_Num: "(if c then NaN else Num (of_int k)) = Num r \<Longrightarrow> of_int \<lfloor>r\<rfloor> = r"
  by (cases c) auto

lemma parseInt_integer: "parseInt s = Num r \<Longrightarrow> of_int \<lfloor>r\<rfloor> = r"
  unfolding parseInt_def Let_def by (rule if_NaN_Num)

lemma parseInt_non_numeric:
  assumes "s \<noteq> []" "\<not> is_whitespace (hd s)" "hd s \<noteq> CHR ''-''" "hd s \<noteq> CHR ''+''"
    "10 \<le> digit_val (hd s)"
  shows "parseInt s = NaN"
proof -
  obtain c cs where s: "s = c # cs" using assms(1) by (cases s) auto
  have "\<not> (take 2 s = ''0x'' \<or> take 2 s = ''0X'')"
    using assms(5) by (auto simp: s digit_val_def)
  then show ?thesis
    using assms by (auto simp: parseInt_def s Let_def)
qed

lemma mongo_connects [simp]: "connects (mongo coll)"
  by (simp add: mongo_def)

lemma mongo_countDocuments [simp]:
  "countDocuments (mongo coll) a = Some (length (by_sender a coll))"
  by (simp add: mongo_def)

lemma mongo_find_sorted:
  "is_natural k \<Longrightarrow> is_natural l \<Longrightarrow> 0 < l \<Longrightarrow>
   find_sorted (mongo coll) a (Num k) (Num l) =
     Some (take (nat \<lfloor>l\<rfloor>) (drop (nat \<lfloor>k\<rfloor>) (sort_key (\<lambda>m. - timestamp m) (by_sender a coll))))"
  by (simp add: mongo_def)

text \<open>A request that passes every check of the handler goes on to the storage layer.\<close>

lemma GET_messages_past_validation:
  assumes "q_address req = Some a" "is_address a"
    and "\<not> num_lt (parseInt (or_default (q_page req) ''1'')) (Num 1)"
    and "\<not> num_lt (parseInt (or_default (q_limit req) ''20'')) (Num 1)"
    and "\<not> num_lt (Num 100) (parseInt (or_default (q_limit req) ''20''))"
    and "connects st"
    and "q_count req \<noteq> Some ''true''"
  shows "take 2 (snd (GET_messages st req)) =
      [Connect, Find (toLowerCase a)
         (num_mul (num_sub (parseInt (or_default (q_page req) ''1'')) (Num 1))
                  (parseInt (or_default (q_limit req) ''20'')))
         (parseInt (or_default (q_limit req) ''20''))]
     \<and> status (fst (GET_messages st req)) = 200"
  using assms is_address_nonempty[of a]
  by (auto simp: GET_messages_def Let_def split: option.splits)

lemma GET_messages_checked:
  assumes "q_address req = Some a" "is_address a"
    and "parseInt (or_default (q_page req) ''1'') = Num p" "1 \<le> p"
    and "parseInt (or_default (q_limit req) ''20'') = Num l" "1 \<le> l" "l \<le> 100"
  shows "GET_messages st req =
     (let normalizedAddress = toLowerCase a
      in if \<not> connects st then
           (\<lparr>status = 200,
             body = [(''success'', JBool False),
                     (''error'', JStr ''Database connection failed''),
                     (''message'', JStr ''Unable to connect to database. Please try again later.''),
                     (''address'', JStr normalizedAddress),
                     (''messageCount'', JNum 0)]\<rparr>, [Connect])
         else if q_count req = Some ''true'' then
           (case countDocuments st normalizedAddress of
              Some messageCount \<Rightarrow>
                (\<lparr>status = 200,
                  body = [(''success'', JBool True),
                          (''address'', JStr normalizedAddress),
                          (''messageCount'', JNum (of_nat messageCount))]\<rparr>,
                 [Connect, CountDocuments normalizedAddress])
            | None \<Rightarrow>
                (\<lparr>status = 200,
                  body = [(''success'', JBool False),
                          (''error'', JStr ''Failed to count messages''),
                          (''address'', JStr normalizedAddress),
                          (''messageCount'', JNum 0)]\<rparr>,
                 [Connect, CountDocuments normalizedAddress]))
         else
           (case find_sorted st normalizedAddress (Num ((p - 1) * l)) (Num l) of
              None \<Rightarrow>
                (\<lparr>status = 200, body = failed_list_body normalizedAddress (Num p) (Num l)\<rparr>,
                 [Connect, Find normalizedAddress (Num ((p - 1) * l)) (Num l)])
            | Some messages \<Rightarrow>
                (case countDocuments st normalizedAddress of
                   None \<Rightarrow>
                     (\<lparr>status = 200, body = failed_list_body normalizedAddress (Num p) (Num l)\<rparr>,
                      [Connect, Find normalizedAddress (Num ((p - 1) * l)) (Num l),
                       CountDocuments normalizedAddress])
                 | Some totalMessages \<Rightarrow>
                     (\<lparr>status = 200,
                       body = [(''success'', JBool True),
                               (''address'', JStr normalizedAddress),
                               (''messages'', JArr (map message_json messages)),
                               (''pagination'',
                                  JObj [(''page'', JNum p),
                                        (''limit'', JNum l),
                                        (''total'', JNum (of_nat totalMessages)),
                                        (''totalPages'',
                                           JNum (of_int \<lceil>of_nat totalMessages / l\<rceil>))])]\<rparr>,
                      [Connect, Find normalizedAddress (Num ((p - 1) * l)) (Num l),
                       CountDocuments normalizedAddress]))))"
  using assms is_address_nonempty[of a]
  by (simp add: GET_messages_def Let_def split: option.splits)

lemma GET_totalmsg_checked:
  assumes "is_address a"
  shows "GET_totalmsg st (Some a) =
     (let normalizedAddress = toLowerCase a
      in if \<not> connects st then
           (\<lparr>status = 200,
             body = [(''success'', JBool False),
                     (''error'', JStr ''Database connection failed''),
                     (''address'', JStr normalizedAddress),
                     (''totalMessages'', JNum 0),
                     (''message'', JStr ''Unable to fetch message count at this time'')]\<rparr>,
            [Connect])
         else
           case countDocuments st normalizedAddress of
             Some totalMessages \<Rightarrow>
               (\<lparr>status = 200,
                 body = [(''success'', JBool True),
                         (''address'', JStr normalizedAddress),
                         (''totalMessages'', JNum (of_nat totalMessages))]\<rparr>,
                [Connect, CountDocuments normalizedAddress])
           | None \<Rightarrow>
               (\<lparr>status = 200,
                 body = [(''success'', JBool False),
                         (''error'', JStr ''Failed to count messages''),
                         (''address'', JStr normalizedAddress),
                         (''totalMessages'', JNum 0)]\<rparr>,
                [Connect, CountDocuments normalizedAddress]))"
  using assms is_address_nonempty[of a]
  by (simp add: GET_totalmsg_def Let_def)

text \<open>
  Claim C5. Take a request with a well-formed address, a page of at least 1 and a limit
  between 1 and 100. If the connection fails, or the count query fails in count mode, or
  the find or the count query fails in list mode, \<open>GET /api/messages\<close> answers with
  status 200, \<open>success: false\<close>, and either \<open>messageCount: 0\<close> or an empty \<open>messages\<close>
  array with \<open>total\<close> and \<open>totalPages\<close> 0. If the connection or the count query fails,
  \<open>GET /api/totalmsg/[address]\<close> answers with status 200, \<open>success: false\<close> and
  \<open>totalMessages: 0\<close>.
\<close>

theorem read_path_absorbs_storage_failure:
  assumes "q_address req = Some a" "is_address a"
    and "parseInt (or_default (q_page req) ''1'') = Num p" "1 \<le> p"
    and "parseInt (or_default (q_limit req) ''20'') = Num l" "1 \<le> l" "l \<le> 100"
  shows "(\<not> connects st
          \<or> (q_count req = Some ''true'' \<and> countDocuments st (toLowerCase a) = None)
          \<or> (q_count req \<noteq> Some ''true''
              \<and> (find_sorted st (toLowerCase a) (Num ((p - 1) * l)) (Num l) = None
                   \<or> countDocuments st (toLowerCase a) = None))
        \<longrightarrow> status (fst (GET_messages st req)) = 200
          \<and> map_of (body (fst (GET_messages st req))) ''success'' = Some (JBool False)
          \<and> (map_of (body (fst (GET_messages st req))) ''messageCount'' = Some (JNum 0)
             \<or> (map_of (body (fst (GET_messages st req))) ''messages'' = Some (JArr [])
                \<and> map_of (body (fst (GET_messages st req))) ''pagination''
                    = Some (JObj [(''page'', JNum p), (''limit'', JNum l),
                                  (''total'', JNum 0), (''totalPages'', JNum 0)]))))
    \<and> (\<not> connects st \<or> countDocuments st (toLowerCase a) = None
        \<longrightarrow> status (fst (GET_totalmsg st (Some a))) = 200
          \<and> map_of (body (fst (GET_totalmsg st (Some a)))) ''success'' = Some (JBool False)
          \<and> map_of (body (fst (GET_totalmsg st (Some a)))) ''totalMessages'' = Some (JNum 0))"
  by (auto simp: GET_messages_checked[OF assms] GET_totalmsg_checked[OF assms(2)] Let_def
        failed_list_body_def split: option.splits)

theorem read_path_absorbs_storage_failure_witness:
  "status (fst (GET_messages
       \<lparr>connects = False, countDocuments = (\<lambda>a. None), find_sorted = (\<lambda>a k l. None)\<rparr>
       \<lparr>q_address = Some ''0x22D74ADFB45147d7588aFA3ba0eF1c363b7dFcFF'', q_count = Some ''true'',
        q_page = None, q_limit = None\<rparr>)) = 200
   \<and> map_of (body (fst (GET_totalmsg
       \<lparr>connects = False, countDocuments = (\<lambda>a. None), find_sorted = (\<lambda>a k l. None)\<rparr>
       (Some ''0x22D74ADFB45147d7588aFA3ba0eF1c363b7dFcFF'')))) ''totalMessages'' = Some (JNum 0)"
  using read_path_absorbs_storage_failure
    [of "\<lparr>q_address = Some ''0x22D74ADFB45147d7588aFA3ba0eF1c363b7dFcFF'', q_count = Some ''true'', q_page = None, q_limit = None\<rparr>"
        "''0x22D74ADFB45147d7588aFA3ba0eF1c363b7dFcFF''" 1 20
        "\<lparr>connects = False, countDocuments = (\<lambda>a. None), find_sorted = (\<lambda>a k l. None)\<rparr>"]
    example_address_ok parseInt_1 parseInt_20
  by simp

text \<open>
  Claim C7 at the request \<open>?address=0x22D7...&limit=abc\<close>. The limit parses to \<open>NaN\<close>,
  which is not between 1 and 100, and yet the request is not rejected: the handler opens
  the database and issues the find with \<open>NaN\<close> as skip and as limit.
\<close>

theorem non_numeric_limit_reaches_storage:
  "status (fst (GET_messages (mongo [])
      \<lparr>q_address = Some ''0x22D74ADFB45147d7588aFA3ba0eF1c363b7dFcFF'', q_count = None,
       q_page = None, q_limit = Some ''abc''\<rparr>)) = 200
   \<and> take 2 (snd (GET_messages (mongo [])
      \<lparr>q_address = Some ''0x22D74ADFB45147d7588aFA3ba0eF1c363b7dFcFF'', q_count = None,
       q_page = None, q_limit = Some ''abc''\<rparr>))
    = [Connect, Find ''0x22d74adfb45147d7588afa3ba0ef1c363b7dfcff'' NaN NaN]"
  by code_simp

text \<open>
  Claim C8. Over every collection, for a well-formed address, a page of at least 1 and a
  limit between 1 and 100: the count request reports the number of stored messages of the
  lower-cased sender, the list request reports the same number as \<open>total\<close> whatever the
  page, and \<open>totalPages\<close> is the ceiling of \<open>total / limit\<close>, which is 0 when \<open>total\<close> is 0.
\<close>

theorem count_equals_total_and_pages:
  assumes "q_address req = Some a" "is_address a"
    and "parseInt (or_default (q_page req) ''1'') = Num p" "1 \<le> p"
    and "parseInt (or_default (q_limit req) ''20'') = Num l" "1 \<le> l" "l \<le> 100"
    and "q_count req \<noteq> Some ''true''"
  shows "map_of (body (fst (GET_messages (mongo coll) (req\<lparr>q_count := Some ''true''\<rparr>)))) ''messageCount''
           = Some (JNum (of_nat (length (by_sender (toLowerCase a) coll))))
    \<and> map_of (body (fst (GET_messages (mongo coll) req))) ''pagination''
           = Some (JObj [(''page'', JNum p), (''limit'', JNum l),
                         (''total'', JNum (of_nat (length (by_sender (toLowerCase a) coll)))),
                         (''totalPages'',
                            JNum (of_int \<lceil>of_nat (length (by_sender (toLowerCase a) coll)) / l\<rceil>))])
    \<and> (length (by_sender (toLowerCase a) coll) = 0 \<longrightarrow>
          \<lceil>of_nat (length (by_sender (toLowerCase a) coll)) / l\<rceil> = 0)"
proof -
  have ip: "of_int \<lfloor>p\<rfloor> = p" and il: "of_int \<lfloor>l\<rfloor> = l"
    using assms(3,5) parseInt_integer by blast+
  have "of_int \<lfloor>(p - 1) * l\<rfloor> = (p - 1) * l"
  proof -
    have "(p - 1) * l = of_int ((\<lfloor>p\<rfloor> - 1) * \<lfloor>l\<rfloor>)"
      by (simp only: of_int_mult of_int_diff of_int_1 ip il)
    then show ?thesis by (metis floor_of_int)
  qed
  then have nat: "is_natural ((p - 1) * l)" "is_natural l" "0 < l"
    using assms(4,6) il by (auto simp: is_natural_def)
  have c: "map_of (body (fst (GET_messages (mongo coll) (req\<lparr>q_count := Some ''true''\<rparr>)))) ''messageCount''
           = Some (JNum (of_nat (length (by_sender (toLowerCase a) coll))))"
    using assms by (subst GET_messages_checked[of _ a p l]) (simp_all add: Let_def)
  have l: "map_of (body (fst (GET_messages (mongo coll) req))) ''pagination''
           = Some (JObj [(''page'', JNum p), (''limit'', JNum l),
                         (''total'', JNum (of_nat (length (by_sender (toLowerCase a) coll)))),
                         (''totalPages'',
                            JNum (of_int \<lceil>of_nat (length (by_sender (toLowerCase a) coll)) / l\<rceil>))])"
    using assms(8) by (simp add: GET_messages_checked[OF assms(1-7)] mongo_find_sorted[OF nat] Let_def)
  show ?thesis using c l by simp
qed

theorem count_equals_total_and_pages_witness:
  "map_of (body (fst (GET_messages
      (mongo [\<lparr>messageId = 1, sender = ''0x22d74adfb45147d7588afa3ba0ef1c363b7dfcff'',
               content = ''a'', timestamp = 100, transactionHash = None, createdAt = 100000\<rparr>,
              \<lparr>messageId = 2, sender = ''0x22d74adfb45147d7588afa3ba0ef1c363b7dfcff'',
               content = ''b'', timestamp = 200, transactionHash = None, createdAt = 200000\<rparr>,
              \<lparr>messageId = 3, sender = ''0x22d74adfb45147d7588afa3ba0ef1c363b7dfcff'',
               content = ''c'', timestamp = 300, transactionHash = None, createdAt = 300000\<rparr>])
      \<lparr>q_address = Some ''0x22D74ADFB45147d7588aFA3ba0eF1c363b7dFcFF'', q_count = None,
       q_page = Some ''1'', q_limit = Some ''2''\<rparr>))) ''pagination''
    = Some (JObj [(''page'', JNum 1), (''limit'', JNum 2), (''total'', JNum 3),
                  (''totalPages'', JNum 2)])"
proof -
  have n: "length (by_sender ''0x22d74adfb45147d7588afa3ba0ef1c363b7dfcff''
      [\<lparr>messageId = 1, sender = ''0x22d74adfb45147d7588afa3ba0ef1c363b7dfcff'',
               content = ''a'', timestamp = 100, transactionHash = None, createdAt = 100000\<rparr>,
              \<lparr>messageId = 2, sender = ''0x22d74adfb45147d7588afa3ba0ef1c363b7dfcff'',
               content = ''b'', timestamp = 200, transactionHash = None, createdAt = 200000\<rparr>,
              \<lparr>messageId = 3, sender = ''0x22d74adfb45147d7588afa3ba0ef1c363b7dfcff'',
               content = ''c'', timestamp = 300, transactionHash = None, createdAt = 300000\<rparr>]) = 3"
    by (simp add: by_sender_def)
  have c: "\<lceil>(3::rat) / 2\<rceil> = 2" by code_simp
  show ?thesis
    using count_equals_total_and_pages
       [of "\<lparr>q_address = Some ''0x22D74ADFB45147d7588aFA3ba0eF1c363b7dFcFF'', q_count = None, q_page = Some ''1'', q_limit = Some ''2''\<rparr>"
           "''0x22D74ADFB45147d7588aFA3ba0eF1c363b7dFcFF''" 1 2
           "[\<lparr>messageId = 1, sender = ''0x22d74adfb45147d7588afa3ba0ef1c363b7dfcff'',
               content = ''a'', timestamp = 100, transactionHash = None, createdAt = 100000\<rparr>,
              \<lparr>messageId = 2, sender = ''0x22d74adfb45147d7588afa3ba0ef1c363b7dfcff'',
               content = ''b'', timestamp = 200, transactionHash = None, createdAt = 200000\<rparr>,
              \<lparr>messageId = 3, sender = ''0x22d74adfb45147d7588afa3ba0ef1c363b7dfcff'',
               content = ''c'', timestamp = 300, transactionHash = None, createdAt = 300000\<rparr>]"]
      example_address_ok example_address_lower parseInt_1 parseInt_2 n c
    by simp
qed

text \<open>
  Claim C10. A parameter that starts with a character that is no white space, no sign and
  no decimal digit parses to \<open>NaN\<close>; \<open>NaN < 1\<close> and \<open>100 < NaN\<close> are both false; and a
  list request with a well-formed address whose page and limit both parse to \<open>NaN\<close> is
  answered with status 200, not 400, after the handler has opened the database and issued
  the find with \<open>NaN\<close> as skip and as limit.
\<close>

theorem nan_pagination_reaches_storage:
  assumes "q_address req = Some a" "is_address a" "q_count req \<noteq> Some ''true''" "connects st"
    and "parseInt (or_default (q_page req) ''1'') = NaN"
    and "parseInt (or_default (q_limit req) ''20'') = NaN"
  shows "(\<forall>s. s \<noteq> [] \<and> \<not> is_whitespace (hd s) \<and> hd s \<noteq> CHR ''-'' \<and> hd s \<noteq> CHR ''+''
              \<and> 10 \<le> digit_val (hd s) \<longrightarrow> parseInt s = NaN)
    \<and> \<not> num_lt NaN (Num 1) \<and> \<not> num_lt (Num 100) NaN
    \<and> status (fst (GET_messages st req)) = 200
    \<and> take 2 (snd (GET_messages st req)) = [Connect, Find (toLowerCase a) NaN NaN]"
  using GET_messages_past_validation[of req a st] assms parseInt_non_numeric by simp

theorem nan_pagination_reaches_storage_witness:
  "parseInt ''abc'' = NaN \<and> take 2 (snd (GET_messages (mongo [])
      \<lparr>q_address = Some ''0x22D74ADFB45147d7588aFA3ba0eF1c363b7dFcFF'', q_count = None,
       q_page = Some ''abc'', q_limit = Some ''abc''\<rparr>))
    = [Connect, Find ''0x22d74adfb45147d7588afa3ba0ef1c363b7dfcff'' NaN NaN]"
  using nan_pagination_reaches_storage
     [of "\<lparr>q_address = Some ''0x22D74ADFB45147d7588aFA3ba0eF1c363b7dFcFF'', q_count = None, q_page = Some ''abc'', q_limit = Some ''abc''\<rparr>"
         "''0x22D74ADFB45147d7588aFA3ba0eF1c363b7dFcFF''" "mongo []"]
    example_address_ok example_address_lower parseInt_abc
  by simp


section \<open>Properties of the upsert\<close>

lemma apply_set_full: "transactionHash u \<noteq> None \<Longrightarrow> apply_set u old = u"
  by (cases u; cases old) (auto simp: apply_set_def)

lemma apply_set_idem: "apply_set u (apply_set u old) = apply_set u old"
  by (simp add: apply_set_def split: option.splits)

lemma apply_set_self: "apply_set u u = u"
  by (cases u) (simp add: apply_set_def split: option.splits)

lemma messageId_apply_set [simp]: "messageId (apply_set u old) = messageId u"
  by (simp add: apply_set_def)

lemma apply_set_fields:
  "messageId (apply_set u old) = messageId u \<and> sender (apply_set u old) = sender u
   \<and> content (apply_set u old) = content u \<and> timestamp (apply_set u old) = timestamp u
   \<and> createdAt (apply_set u old) = createdAt u"
  by (simp add: apply_set_def)

lemma update_result_eta:
  "\<lparr>matchedCount = matchedCount r, modifiedCount = modifiedCount r,
    upsertedCount = upsertedCount r\<rparr> = r"
  by (cases r) simp

lemma updateOne_absent:
  "mid \<notin> messageId ` set coll \<Longrightarrow>
   updateOne_upsert mid u coll =
     (\<lparr>matchedCount = 0, modifiedCount = 0, upsertedCount = 1\<rparr>, coll @ [u])"
  by (induction coll) auto

lemma updateOne_present:
  "mid \<in> messageId ` set coll \<Longrightarrow>
   fst (updateOne_upsert mid u coll) =
     \<lparr>matchedCount = 1,
      modifiedCount = (if snd (updateOne_upsert mid u coll) = coll then 0 else 1),
      upsertedCount = 0\<rparr>
   \<and> length (snd (updateOne_upsert mid u coll)) = length coll"
  by (induction coll) (auto simp: case_prod_beta)

lemma updateOne_full_stored:
  "transactionHash u \<noteq> None \<Longrightarrow> u \<in> set (snd (updateOne_upsert mid u coll))"
  by (induction coll) (auto simp: case_prod_beta apply_set_full)

lemma filter_absent:
  "mid \<notin> messageId ` set coll \<Longrightarrow> filter (\<lambda>d. messageId d = mid) coll = []"
  by (induction coll) auto

lemma updateOne_ids:
  "messageId u = mid \<Longrightarrow>
   messageId ` set (snd (updateOne_upsert mid u coll)) = insert mid (messageId ` set coll)"
  by (induction coll) (auto simp: case_prod_beta)

text \<open>The upsert keeps the unique index intact.\<close>

lemma updateOne_unique:
  "unique_messageId coll \<Longrightarrow> messageId u = mid \<Longrightarrow>
   unique_messageId (snd (updateOne_upsert mid u coll))"
  unfolding unique_messageId_def
proof (induction coll)
  case Nil
  then show ?case by simp
next
  case (Cons d ds)
  then show ?case
    using updateOne_ids[of u mid ds] by (auto simp: case_prod_beta)
qed

lemma updateOne_one_document:
  assumes "unique_messageId coll" "messageId u = mid"
  shows "\<exists>old. filter (\<lambda>d. messageId d = mid) (snd (updateOne_upsert mid u coll)) = [apply_set u old]"
  using assms unfolding unique_messageId_def
proof (induction coll)
  case Nil
  then show ?case by (auto simp: apply_set_self intro!: exI[of _ u])
next
  case (Cons d ds)
  then show ?case
    by (auto simp: case_prod_beta filter_absent)
qed

lemma upsert_twice_one_document:
  assumes "unique_messageId coll" "messageId u1 = mid" "messageId u2 = mid"
  shows "\<exists>d. filter (\<lambda>x. messageId x = mid)
               (snd (updateOne_upsert mid u2 (snd (updateOne_upsert mid u1 coll)))) = [d]
           \<and> messageId d = mid \<and> sender d = sender u2 \<and> content d = content u2
           \<and> timestamp d = timestamp u2 \<and> createdAt d = createdAt u2
           \<and> (transactionHash u2 \<noteq> None \<longrightarrow> d = u2)"
proof -
  have "unique_messageId (snd (updateOne_upsert mid u1 coll))"
    using assms(1,2) by (rule updateOne_unique)
  from updateOne_one_document[OF this assms(3)] obtain old where
    "filter (\<lambda>d. messageId d = mid)
       (snd (updateOne_upsert mid u2 (snd (updateOne_upsert mid u1 coll)))) = [apply_set u2 old]"
    by blast
  then show ?thesis
    using assms(3) apply_set_fields[of u2 old] apply_set_full[of u2 old] by auto
qed

text \<open>Running the same upsert again matches the document and modifies nothing.\<close>

lemma updateOne_twice_same:
  "messageId u = mid \<Longrightarrow>
   updateOne_upsert mid u (snd (updateOne_upsert mid u coll)) =
     (\<lparr>matchedCount = 1, modifiedCount = 0, upsertedCount = 0\<rparr>, snd (updateOne_upsert mid u coll))"
  by (induction coll) (auto simp: case_prod_beta apply_set_idem apply_set_self)

text \<open>An upsert that has become a no-op stays one when a different key is written.\<close>

lemma updateOne_other_settled:
  assumes "updateOne_upsert m1 u1 coll =
             (\<lparr>matchedCount = 1, modifiedCount = 0, upsertedCount = 0\<rparr>, coll)"
    and "m2 \<noteq> m1" "messageId u2 = m2"
  shows "updateOne_upsert m1 u1 (snd (updateOne_upsert m2 u2 coll)) =
           (\<lparr>matchedCount = 1, modifiedCount = 0, upsertedCount = 0\<rparr>,
            snd (updateOne_upsert m2 u2 coll))"
  using assms
proof (induction coll)
  case Nil
  then show ?case by simp
next
  case (Cons d ds)
  show ?case
  proof (cases "messageId d = m1")
    case True
    with Cons.prems show ?thesis
      by (auto simp: case_prod_beta split: if_splits)
  next
    case False
    with Cons.prems have tl: "updateOne_upsert m1 u1 ds =
             (\<lparr>matchedCount = 1, modifiedCount = 0, upsertedCount = 0\<rparr>, ds)"
      by (auto simp: case_prod_beta split: if_splits intro: prod_eqI)
    from Cons.IH[OF tl Cons.prems(2,3)] tl False Cons.prems(2,3) show ?thesis
      by (auto simp: case_prod_beta)
  qed
qed

lemma bulkWrite_append:
  "bulkWrite (xs @ ys) coll =
     (\<lparr>matchedCount = matchedCount (fst (bulkWrite xs coll))
                      + matchedCount (fst (bulkWrite ys (snd (bulkWrite xs coll)))),
       modifiedCount = modifiedCount (fst (bulkWrite xs coll))
                      + modifiedCount (fst (bulkWrite ys (snd (bulkWrite xs coll)))),
       upsertedCount = upsertedCount (fst (bulkWrite xs coll))
                      + upsertedCount (fst (bulkWrite ys (snd (bulkWrite xs coll))))\<rparr>,
      snd (bulkWrite ys (snd (bulkWrite xs coll))))"
  by (induction xs arbitrary: coll) (auto simp: case_prod_beta update_result_eta)

lemma bulkWrite_keeps_settled:
  assumes "updateOne_upsert m1 u1 coll =
             (\<lparr>matchedCount = 1, modifiedCount = 0, upsertedCount = 0\<rparr>, coll)"
    and "m1 \<notin> fst ` set ops" "\<forall>(m, u) \<in> set ops. messageId u = m"
  shows "updateOne_upsert m1 u1 (snd (bulkWrite ops coll)) =
           (\<lparr>matchedCount = 1, modifiedCount = 0, upsertedCount = 0\<rparr>, snd (bulkWrite ops coll))"
  using assms
proof (induction ops arbitrary: coll)
  case Nil
  then show ?case by simp
next
  case (Cons op ops)
  obtain m2 u2 where op: "op = (m2, u2)" by (cases op)
  have "updateOne_upsert m1 u1 (snd (updateOne_upsert m2 u2 coll)) =
     (\<lparr>matchedCount = 1, modifiedCount = 0, upsertedCount = 0\<rparr>, snd (updateOne_upsert m2 u2 coll))"
    using Cons.prems op by (intro updateOne_other_settled) auto
  from Cons.IH[OF this] Cons.prems show ?case
    by (simp add: op case_prod_beta)
qed

lemma bulkWrite_settles:
  assumes "distinct (map fst ops)" "\<forall>(m, u) \<in> set ops. messageId u = m" "(m1, u1) \<in> set ops"
  shows "updateOne_upsert m1 u1 (snd (bulkWrite ops coll)) =
           (\<lparr>matchedCount = 1, modifiedCount = 0, upsertedCount = 0\<rparr>, snd (bulkWrite ops coll))"
  using assms
proof (induction ops arbitrary: coll)
  case Nil
  then show ?case by simp
next
  case (Cons op ops)
  obtain m2 u2 where op: "op = (m2, u2)" by (cases op)
  show ?case
  proof (cases "(m1, u1) = op")
    case True
    have "updateOne_upsert m1 u1 (snd (updateOne_upsert m1 u1 coll)) =
       (\<lparr>matchedCount = 1, modifiedCount = 0, upsertedCount = 0\<rparr>, snd (updateOne_upsert m1 u1 coll))"
      using Cons.prems True by (intro updateOne_twice_same) auto
    from bulkWrite_keeps_settled[OF this, of ops] Cons.prems True show ?thesis
      by (auto simp: op case_prod_beta)
  next
    case False
    with Cons.prems have "(m1, u1) \<in> set ops" by auto
    from Cons.IH[OF _ _ this] Cons.prems show ?thesis
      by (simp add: op case_prod_beta)
  qed
qed

lemma bulkWrite_all_settled:
  assumes "\<forall>(m, u) \<in> set ops. updateOne_upsert m u coll =
             (\<lparr>matchedCount = 1, modifiedCount = 0, upsertedCount = 0\<rparr>, coll)"
  shows "bulkWrite ops coll =
           (\<lparr>matchedCount = length ops, modifiedCount = 0, upsertedCount = 0\<rparr>, coll)"
  using assms by (induction ops) (auto simp: case_prod_beta)

lemma bulkWrite_twice:
  assumes "distinct (map fst ops)" "\<forall>(m, u) \<in> set ops. messageId u = m"
  shows "bulkWrite ops (snd (bulkWrite ops coll)) =
           (\<lparr>matchedCount = length ops, modifiedCount = 0, upsertedCount = 0\<rparr>,
            snd (bulkWrite ops coll))"
  using bulkWrite_settles[OF assms] by (intro bulkWrite_all_settled) auto


section \<open>Properties of the ingestion endpoint\<close>

lemma trim_hello: "trim ''hello'' = ''hello''"
  by code_simp

lemma POST_zero:
  assumes "get_prop b ''messageId'' = Some (JNum 0) \<or> get_prop b ''timestamp'' = Some (JNum 0)"
  shows "POST_messages env now (Some b) coll =
     (missing_fields_response (get_prop b ''messageId'') (get_prop b ''sender'')
        (get_prop b ''content'') (get_prop b ''timestamp''), [], coll)"
proof (cases b)
  case (JObj kv)
  with assms show ?thesis
    by (auto simp: POST_messages_def Let_def)
qed (use assms in simp_all)

lemma POST_accepted:
  assumes "get_prop b ''messageId'' = Some (JNum mid)" "mid \<noteq> 0"
    and "get_prop b ''sender'' = Some (JStr a)" "is_address a"
    and "get_prop b ''content'' = Some (JStr c)" "trim c \<noteq> []"
    and "get_prop b ''timestamp'' = Some (JNum ts)" "0 < ts"
    and "w_connects env" "w_update_error env = None"
  shows "POST_messages env now (Some b) coll =
     (let r = updateOne_upsert mid (messageDoc mid a c ts (get_prop b ''transactionHash'') now) coll
      in (\<lparr>status = 200,
           body = [(''success'', JBool True),
                   (''messageId'', JNum mid),
                   (''inserted'', JBool (upsertedCount (fst r) > 0)),
                   (''updated'', JBool (modifiedCount (fst r) > 0)),
                   (''message'', JStr (if upsertedCount (fst r) > 0
                                       then ''Message saved successfully''
                                       else ''Message updated successfully''))]\<rparr>,
          [Connect, UpdateOne mid], snd r))"
proof (cases b)
  case (JObj kv)
  with assms have "c \<noteq> []" by (auto simp: trim_def)
  with JObj assms is_address_nonempty[of a] show ?thesis
    by (simp add: POST_messages_def Let_def case_prod_beta)
qed (use assms in simp_all)

text \<open>A body that fails one of the checks is answered without any call to the database.\<close>

lemma POST_not_200:
  assumes "\<not> (\<exists>b mid a c ts. parsed = Some b
              \<and> get_prop b ''messageId'' = Some (JNum mid) \<and> mid \<noteq> 0
              \<and> get_prop b ''sender'' = Some (JStr a) \<and> is_address a
              \<and> get_prop b ''content'' = Some (JStr c) \<and> trim c \<noteq> []
              \<and> get_prop b ''timestamp'' = Some (JNum ts) \<and> 0 < ts)"
  shows "status (fst (POST_messages env now parsed coll)) \<noteq> 200
     \<and> snd (POST_messages env now parsed coll) = ([], coll)"
proof (cases parsed)
  case None
  then show ?thesis by (simp add: POST_messages_def bad_request_def)
next
  case (Some b)
  show ?thesis
  proof (cases "b = JNull")
    case True
    with Some show ?thesis by (simp add: POST_messages_def internal_error_response_def)
  next
    case False
    then have unf: "POST_messages env now (Some b) coll =
      (let messageId_v = get_prop b ''messageId'';
              sender_v = get_prop b ''sender'';
              content_v = get_prop b ''content'';
              timestamp_v = get_prop b ''timestamp''
          in if \<not> truthy messageId_v \<or> \<not> truthy sender_v \<or> \<not> truthy content_v
                  \<or> \<not> truthy timestamp_v
             then (missing_fields_response messageId_v sender_v content_v timestamp_v, [], coll)
             else POST_messages env now (Some b) coll)"
      by (cases b) (simp_all add: POST_messages_def Let_def)
    show ?thesis
    proof (cases "truthy (get_prop b ''messageId'') \<and> truthy (get_prop b ''sender'')
         \<and> truthy (get_prop b ''content'') \<and> truthy (get_prop b ''timestamp'')")
      case False
      then show ?thesis using Some unf by (auto simp: Let_def missing_fields_response_def)
    next
      case True
      have neg: "\<forall>mid a c ts. get_prop b ''messageId'' = Some (JNum mid) \<longrightarrow> mid \<noteq> 0 \<longrightarrow>
         get_prop b ''sender'' = Some (JStr a) \<longrightarrow> is_address a \<longrightarrow>
         get_prop b ''content'' = Some (JStr c) \<longrightarrow> trim c \<noteq> [] \<longrightarrow>
         get_prop b ''timestamp'' = Some (JNum ts) \<longrightarrow> \<not> 0 < ts"
        using assms Some by blast
      from True neg Some \<open>b \<noteq> JNull\<close> show ?thesis
        by (cases b)
           (auto simp: POST_messages_def Let_def bad_request_def internal_error_response_def
              split: option.splits json.splits)
    qed
  qed
qed

text \<open>
  Claim C6, as the code has it. With the database up: the request is answered with
  status 200 only if the body is an object whose \<open>messageId\<close> is a number other than 0,
  whose \<open>sender\<close> is a string of the address format, whose \<open>content\<close> is a string that is
  not empty after trimming and whose \<open>timestamp\<close> is a number above 0; any other request
  is answered without a call to the database and leaves the collection as it was. For a
  body that passes, the collection afterwards is the upsert by \<open>messageId\<close> of the document
  with the lower-cased sender, the trimmed content and all six fields set, and that
  document is stored as it is; \<open>inserted\<close> is true exactly when no document had this
  \<open>messageId\<close> (the collection then grows by one), \<open>updated\<close> is true exactly when a
  document had it and the collection changed (its length stays), so both are false exactly
  when the write matched a document and left the collection as it was.
\<close>

theorem post_save_semantics:
  assumes "w_connects env" "w_update_error env = None"
  shows "(status (fst (POST_messages env now parsed coll)) = 200 \<longrightarrow>
           (\<exists>b mid a c ts. parsed = Some b
              \<and> get_prop b ''messageId'' = Some (JNum mid) \<and> mid \<noteq> 0
              \<and> get_prop b ''sender'' = Some (JStr a) \<and> is_address a
              \<and> get_prop b ''content'' = Some (JStr c) \<and> trim c \<noteq> []
              \<and> get_prop b ''timestamp'' = Some (JNum ts) \<and> 0 < ts))
    \<and> (status (fst (POST_messages env now parsed coll)) \<noteq> 200 \<longrightarrow>
           snd (POST_messages env now parsed coll) = ([], coll))
    \<and> (\<forall>b mid a c ts. parsed = Some b
              \<and> get_prop b ''messageId'' = Some (JNum mid) \<and> mid \<noteq> 0
              \<and> get_prop b ''sender'' = Some (JStr a) \<and> is_address a
              \<and> get_prop b ''content'' = Some (JStr c) \<and> trim c \<noteq> []
              \<and> get_prop b ''timestamp'' = Some (JNum ts) \<and> 0 < ts \<longrightarrow>
          status (fst (POST_messages env now parsed coll)) = 200
          \<and> fst (snd (POST_messages env now parsed coll)) = [Connect, UpdateOne mid]
          \<and> snd (snd (POST_messages env now parsed coll)) =
               snd (updateOne_upsert mid
                      \<lparr>messageId = mid, sender = toLowerCase a, content = trim c, timestamp = ts,
                transactionHash =
                  Some (case get_prop b ''transactionHash'' of None \<Rightarrow> JNull | Some h \<Rightarrow> h),
                createdAt = now\<rparr> coll)
          \<and> \<lparr>messageId = mid, sender = toLowerCase a, content = trim c, timestamp = ts,
                transactionHash =
                  Some (case get_prop b ''transactionHash'' of None \<Rightarrow> JNull | Some h \<Rightarrow> h),
                createdAt = now\<rparr> \<in> set (snd (snd (POST_messages env now parsed coll)))
          \<and> map_of (body (fst (POST_messages env now parsed coll))) ''inserted''
               = Some (JBool (mid \<notin> messageId ` set coll))
          \<and> (mid \<notin> messageId ` set coll \<longrightarrow>
                length (snd (snd (POST_messages env now parsed coll))) = Suc (length coll))
          \<and> map_of (body (fst (POST_messages env now parsed coll))) ''updated''
               = Some (JBool (mid \<in> messageId ` set coll
                              \<and> snd (snd (POST_messages env now parsed coll)) \<noteq> coll))
          \<and> (mid \<in> messageId ` set coll \<longrightarrow>
                length (snd (snd (POST_messages env now parsed coll))) = length coll))"
proof (intro conjI impI allI)
  assume "status (fst (POST_messages env now parsed coll)) = 200"
  then show "\<exists>b mid a c ts. parsed = Some b
              \<and> get_prop b ''messageId'' = Some (JNum mid) \<and> mid \<noteq> 0
              \<and> get_prop b ''sender'' = Some (JStr a) \<and> is_address a
              \<and> get_prop b ''content'' = Some (JStr c) \<and> trim c \<noteq> []
              \<and> get_prop b ''timestamp'' = Some (JNum ts) \<and> 0 < ts"
    using POST_not_200[of parsed env now coll] by blast
next
  assume ne: "status (fst (POST_messages env now parsed coll)) \<noteq> 200"
  show "snd (POST_messages env now parsed coll) = ([], coll)"
  proof (rule ccontr)
    assume c: "snd (POST_messages env now parsed coll) \<noteq> ([], coll)"
    with POST_not_200[of parsed env now coll] obtain b mid a c ts where
      "parsed = Some b" "get_prop b ''messageId'' = Some (JNum mid)" "mid \<noteq> 0"
      "get_prop b ''sender'' = Some (JStr a)" "is_address a"
      "get_prop b ''content'' = Some (JStr c)" "trim c \<noteq> []"
      "get_prop b ''timestamp'' = Some (JNum ts)" "0 < ts"
      by blast
    from POST_accepted[OF this(2-9) assms, of now coll] this(1) ne show False
      by (simp add: Let_def)
  qed
next
  fix b mid a c ts
  assume acc: "parsed = Some b
              \<and> get_prop b ''messageId'' = Some (JNum mid) \<and> mid \<noteq> 0
              \<and> get_prop b ''sender'' = Some (JStr a) \<and> is_address a
              \<and> get_prop b ''content'' = Some (JStr c) \<and> trim c \<noteq> []
              \<and> get_prop b ''timestamp'' = Some (JNum ts) \<and> 0 < ts"
  let ?doc = "\<lparr>messageId = mid, sender = toLowerCase a, content = trim c, timestamp = ts,
                transactionHash =
                  Some (case get_prop b ''transactionHash'' of None \<Rightarrow> JNull | Some h \<Rightarrow> h),
                createdAt = now\<rparr>"
  have doc: "messageDoc mid a c ts (get_prop b ''transactionHash'') now = ?doc"
    by (simp add: messageDoc_def)
  have P: "POST_messages env now parsed coll =
     (let r = updateOne_upsert mid ?doc coll
      in (\<lparr>status = 200,
           body = [(''success'', JBool True),
                   (''messageId'', JNum mid),
                   (''inserted'', JBool (upsertedCount (fst r) > 0)),
                   (''updated'', JBool (modifiedCount (fst r) > 0)),
                   (''message'', JStr (if upsertedCount (fst r) > 0
                                       then ''Message saved successfully''
                                       else ''Message updated successfully''))]\<rparr>,
          [Connect, UpdateOne mid], snd r))"
    using POST_accepted[of b mid a c ts env now coll] acc assms by (simp add: doc)
  show "status (fst (POST_messages env now parsed coll)) = 200"
    by (simp add: P Let_def)
  show "fst (snd (POST_messages env now parsed coll)) = [Connect, UpdateOne mid]"
    by (simp add: P Let_def)
  show "snd (snd (POST_messages env now parsed coll)) = snd (updateOne_upsert mid ?doc coll)"
    by (simp add: P Let_def)
  show "?doc \<in> set (snd (snd (POST_messages env now parsed coll)))"
    using updateOne_full_stored[of ?doc mid coll] by (simp add: P Let_def)
  show "map_of (body (fst (POST_messages env now parsed coll))) ''inserted''
               = Some (JBool (mid \<notin> messageId ` set coll))"
    using updateOne_absent[of mid coll ?doc] updateOne_present[of mid coll ?doc]
    by (cases "mid \<in> messageId ` set coll") (simp_all add: P Let_def)
  show "map_of (body (fst (POST_messages env now parsed coll))) ''updated''
               = Some (JBool (mid \<in> messageId ` set coll
                              \<and> snd (snd (POST_messages env now parsed coll)) \<noteq> coll))"
    using updateOne_absent[of mid coll ?doc] updateOne_present[of mid coll ?doc]
    by (cases "mid \<in> messageId ` set coll") (simp_all add: P Let_def)
  show "length (snd (snd (POST_messages env now parsed coll))) = Suc (length coll)"
    if "mid \<notin> messageId ` set coll"
    using updateOne_absent[of mid coll ?doc] that by (simp add: P Let_def)
  show "length (snd (snd (POST_messages env now parsed coll))) = length coll"
    if "mid \<in> messageId ` set coll"
    using updateOne_present[of mid coll ?doc] that by (simp add: P Let_def)
qed

theorem post_save_semantics_witness:
  "status (fst (POST_messages \<lparr>w_connects = True, w_update_error = None\<rparr> 77
      (Some (JObj [(''messageId'', JNum 7), (''sender'', JStr ''0x22D74ADFB45147d7588aFA3ba0eF1c363b7dFcFF''),
                   (''content'', JStr ''hello''), (''timestamp'', JNum 1700000000)])) [])) = 200
   \<and> map_of (body (fst (POST_messages \<lparr>w_connects = True, w_update_error = None\<rparr> 77
      (Some (JObj [(''messageId'', JNum 7), (''sender'', JStr ''0x22D74ADFB45147d7588aFA3ba0eF1c363b7dFcFF''),
                   (''content'', JStr ''hello''), (''timestamp'', JNum 1700000000)])) []))) ''inserted''
       = Some (JBool True)"
proof -
  have e: "w_connects \<lparr>w_connects = True, w_update_error = None\<rparr>"
      "w_update_error \<lparr>w_connects = True, w_update_error = None\<rparr> = None"
    by simp_all
  note t = post_save_semantics [OF e, of 77 "Some (JObj [(''messageId'', JNum 7), (''sender'', JStr ''0x22D74ADFB45147d7588aFA3ba0eF1c363b7dFcFF''),
                   (''content'', JStr ''hello''), (''timestamp'', JNum 1700000000)])" "[]",
         THEN conjunct2, THEN conjunct2, rule_format,
         of "JObj [(''messageId'', JNum 7), (''sender'', JStr ''0x22D74ADFB45147d7588aFA3ba0eF1c363b7dFcFF''),
                   (''content'', JStr ''hello''), (''timestamp'', JNum 1700000000)]"
            7 "''0x22D74ADFB45147d7588aFA3ba0eF1c363b7dFcFF''" "''hello''" 1700000000]
  show ?thesis
    using t example_address_ok trim_hello by simp
qed

text \<open>
  Claim C6 as stated fails: the handler tests \<open>typeof messageId\<close> and \<open>typeof timestamp\<close>
  for \<open>number\<close>, not for an integer. The body with \<open>messageId\<close> 3/2 and \<open>timestamp\<close> 1/2
  is answered with status 200 and stored.
\<close>

theorem post_accepts_non_integer_numbers:
  "status (fst (POST_messages \<lparr>w_connects = True, w_update_error = None\<rparr> 77
      (Some (JObj [(''messageId'', JNum (3 / 2)), (''sender'', JStr ''0x22D74ADFB45147d7588aFA3ba0eF1c363b7dFcFF''),
                   (''content'', JStr '' hi ''), (''timestamp'', JNum (1 / 2))])) [])) = 200
   \<and> snd (snd (POST_messages \<lparr>w_connects = True, w_update_error = None\<rparr> 77
      (Some (JObj [(''messageId'', JNum (3 / 2)), (''sender'', JStr ''0x22D74ADFB45147d7588aFA3ba0eF1c363b7dFcFF''),
                   (''content'', JStr '' hi ''), (''timestamp'', JNum (1 / 2))])) []))
      = [\<lparr>messageId = 3 / 2, sender = ''0x22d74adfb45147d7588afa3ba0ef1c363b7dfcff'',
          content = ''hi'', timestamp = 1 / 2, transactionHash = Some JNull, createdAt = 77\<rparr>]
   \<and> rat_of_int \<lfloor>3 / 2 :: rat\<rfloor> \<noteq> 3 / 2 \<and> rat_of_int \<lfloor>1 / 2 :: rat\<rfloor> \<noteq> 1 / 2"
  by code_simp

text \<open>
  Claim C9. A body whose \<open>messageId\<close> is 0 or whose \<open>timestamp\<close> is 0 is answered with
  status 400 and the error \<open>Missing required fields\<close>, whatever its other fields and
  whatever the state of the database; the database is not called and the collection is
  unchanged, so no record with \<open>messageId\<close> 0 is ever stored through this endpoint.
\<close>

theorem zero_messageId_or_timestamp_is_rejected:
  assumes "get_prop b ''messageId'' = Some (JNum 0) \<or> get_prop b ''timestamp'' = Some (JNum 0)"
  shows "status (fst (POST_messages env now (Some b) coll)) = 400
    \<and> map_of (body (fst (POST_messages env now (Some b) coll))) ''error''
        = Some (JStr ''Missing required fields: messageId, sender, content, timestamp'')
    \<and> snd (POST_messages env now (Some b) coll) = ([], coll)"
  using POST_zero[OF assms, of env now coll]
  by (simp add: missing_fields_response_def)

theorem zero_messageId_or_timestamp_is_rejected_witness:
  "status (fst (POST_messages \<lparr>w_connects = True, w_update_error = None\<rparr> 77
      (Some (JObj [(''messageId'', JNum 0), (''sender'', JStr ''0x22D74ADFB45147d7588aFA3ba0eF1c363b7dFcFF''),
                   (''content'', JStr ''hello''), (''timestamp'', JNum 1700000000)])) [])) = 400"
  using zero_messageId_or_timestamp_is_rejected
     [of "JObj [(''messageId'', JNum 0), (''sender'', JStr ''0x22D74ADFB45147d7588aFA3ba0eF1c363b7dFcFF''),
                   (''content'', JStr ''hello''), (''timestamp'', JNum 1700000000)]" "\<lparr>w_connects = True, w_update_error = None\<rparr>" 77 "[]"]
  by simp


section \<open>Properties of the reconciler\<close>

lemma add_result_zero:
  "add_result acc \<lparr>matchedCount = 0, modifiedCount = 0, upsertedCount = 0\<rparr> = acc"
  by (cases acc) (simp add: add_result_def)

lemma add_result_add:
  "add_result (add_result acc r1) r2 =
     add_result acc \<lparr>matchedCount = matchedCount r1 + matchedCount r2,
                     modifiedCount = modifiedCount r1 + modifiedCount r2,
                     upsertedCount = upsertedCount r1 + upsertedCount r2\<rparr>"
  by (simp add: add_result_def)

lemma bulkOps_of_append: "bulkOps_of (xs @ ys) = bulkOps_of xs @ bulkOps_of ys"
  by (simp add: bulkOps_of_def)

text \<open>
  The batch loop over a ledger of \<open>messageCount\<close> records writes, from offset \<open>start\<close>
  on, what one ordered bulk write of all remaining records writes, and counts the same.
\<close>

lemma sync_batches_bulkWrite:
  "messageCount = length l \<Longrightarrow>
   sync_batches l messageCount start acc coll =
     (add_result acc (fst (bulkWrite (bulkOps_of (drop start l)) coll)),
      snd (bulkWrite (bulkOps_of (drop start l)) coll))"
proof (induction l messageCount start acc coll rule: sync_batches.induct)
  case (1 l messageCount start acc coll)
  show ?case
  proof (cases "start < messageCount")
    case False
    with "1.prems" show ?thesis
      by (subst sync_batches.simps) (simp add: bulkOps_of_def add_result_zero)
  next
    case True
    define batch where "batch = getMessages l start (min BATCH_SIZE (messageCount - start))"
    have batch: "batch = take BATCH_SIZE (drop start l)"
      using "1.prems" by (simp add: batch_def getMessages_def min_def)
    have ne: "bulkOps_of batch \<noteq> []"
      using True "1.prems" by (simp add: batch bulkOps_of_def BATCH_SIZE_def)
    have split: "drop start l = batch @ drop (start + BATCH_SIZE) l"
    proof -
      have "drop (start + BATCH_SIZE) l = drop BATCH_SIZE (drop start l)"
        by (simp add: add.commute)
      then show ?thesis
        unfolding batch by (simp only: append_take_drop_id)
    qed
    define step where "step = (add_result acc (fst (bulkWrite (bulkOps_of batch) coll)),
                               snd (bulkWrite (bulkOps_of batch) coll))"
    have unf: "sync_batches l messageCount start acc coll =
                 sync_batches l messageCount (start + BATCH_SIZE) (fst step) (snd step)"
      using True ne
      by (subst sync_batches.simps) (simp add: Let_def batch_def[symmetric] step_def case_prod_beta)
    have IH: "sync_batches l messageCount (start + BATCH_SIZE) (fst step) (snd step) =
       (add_result (fst step) (fst (bulkWrite (bulkOps_of (drop (start + BATCH_SIZE) l)) (snd step))),
        snd (bulkWrite (bulkOps_of (drop (start + BATCH_SIZE) l)) (snd step)))"
      using True ne "1.prems"
      by (intro "1.IH"[OF True refl refl refl]) (simp_all add: step_def batch_def case_prod_beta)
    have ops: "bulkOps_of (drop start l) =
                 bulkOps_of batch @ bulkOps_of (drop (start + BATCH_SIZE) l)"
      by (subst split) (simp add: bulkOps_of_append)
    show ?thesis
      unfolding unf IH ops
      by (simp add: step_def bulkWrite_append add_result_add)
  qed
qed

lemma to_double_small: "n < 2 ^ 53 \<Longrightarrow> to_double n = n"
  by (simp add: to_double_def)

lemma Number_bigint_small: "n < 2 ^ 53 \<Longrightarrow> Number_bigint n = of_nat n"
  by (simp add: Number_bigint_def to_double_small)

lemma small_ids_stay_distinct:
  assumes "\<forall>msg \<in> set l. c_messageId msg < 2 ^ 53" "distinct (map c_messageId l)"
  shows "distinct (map (\<lambda>msg. Number_bigint (c_messageId msg)) l)"
proof -
  have eq: "map (\<lambda>msg. Number_bigint (c_messageId msg)) l
          = map (\<lambda>msg. (of_nat (c_messageId msg) :: rat)) l"
    using assms(1) by (intro map_cong refl) (simp add: Number_bigint_small)
  have "distinct (map (\<lambda>msg. (of_nat (c_messageId msg) :: rat)) l)"
    using assms(2) by (auto simp: distinct_map inj_on_def)
  then show ?thesis by (simp only: eq)
qed

lemma bulkOps_of_keys:
  "map fst (bulkOps_of l) = map (\<lambda>msg. Number_bigint (c_messageId msg)) l"
  by (simp add: bulkOps_of_def sync_messageDoc_def comp_def)

lemma bulkOps_of_keyed: "\<forall>(m, u) \<in> set (bulkOps_of l). messageId u = m"
  by (auto simp: bulkOps_of_def)

text \<open>Writing one key leaves the documents of every other key as they are.\<close>

lemma updateOne_filter_other:
  "m2 \<noteq> m1 \<Longrightarrow> messageId u2 = m2 \<Longrightarrow>
   filter (\<lambda>d. messageId d = m1) (snd (updateOne_upsert m2 u2 coll))
     = filter (\<lambda>d. messageId d = m1) coll"
  by (induction coll) (auto simp: case_prod_beta)

lemma bulkWrite_filter_other:
  "m1 \<notin> fst ` set ops \<Longrightarrow> \<forall>(m, u) \<in> set ops. messageId u = m \<Longrightarrow>
   filter (\<lambda>d. messageId d = m1) (snd (bulkWrite ops coll))
     = filter (\<lambda>d. messageId d = m1) coll"
proof (induction ops arbitrary: coll)
  case Nil
  then show ?case by simp
next
  case (Cons op ops)
  obtain m2 u2 where op: "op = (m2, u2)" by (cases op)
  from Cons.prems have "m2 \<noteq> m1" "messageId u2 = m2" by (auto simp: op)
  from updateOne_filter_other[OF this] Cons.IH[of "snd (updateOne_upsert m2 u2 coll)"] Cons.prems
  show ?case by (simp add: op case_prod_beta)
qed

lemma bulkWrite_unique:
  "unique_messageId coll \<Longrightarrow> \<forall>(m, u) \<in> set ops. messageId u = m \<Longrightarrow>
   unique_messageId (snd (bulkWrite ops coll))"
proof (induction ops arbitrary: coll)
  case Nil
  then show ?case by simp
next
  case (Cons op ops)
  obtain m2 u2 where op: "op = (m2, u2)" by (cases op)
  from Cons.prems have "unique_messageId (snd (updateOne_upsert m2 u2 coll))"
    by (intro updateOne_unique) (auto simp: op)
  from Cons.IH[OF this] Cons.prems show ?case by (simp add: op case_prod_beta)
qed

text \<open>
  After an ordered bulk write of upserts with pairwise distinct keys, every key written
  has exactly one document, and that document carries what its upsert set.
\<close>

lemma bulkWrite_one_document:
  assumes "unique_messageId coll" "distinct (map fst ops)"
    and "\<forall>(m, u) \<in> set ops. messageId u = m" "(m1, u1) \<in> set ops"
  shows "\<exists>old. filter (\<lambda>d. messageId d = m1) (snd (bulkWrite ops coll)) = [apply_set u1 old]"
  using assms
proof (induction ops arbitrary: coll)
  case Nil
  then show ?case by simp
next
  case (Cons op ops)
  obtain m2 u2 where op: "op = (m2, u2)" by (cases op)
  have key: "messageId u2 = m2" using Cons.prems(3) by (simp add: op)
  have uq: "unique_messageId (snd (updateOne_upsert m2 u2 coll))"
    using Cons.prems(1) key by (rule updateOne_unique)
  show ?case
  proof (cases "(m1, u1) = op")
    case True
    then have eq: "m1 = m2" "u1 = u2" by (simp_all add: op)
    from updateOne_one_document[OF Cons.prems(1) key] obtain old where
      one: "filter (\<lambda>d. messageId d = m2) (snd (updateOne_upsert m2 u2 coll)) = [apply_set u2 old]"
      by blast
    have "m2 \<notin> fst ` set ops" using Cons.prems(2) by (simp add: op)
    from bulkWrite_filter_other[OF this, of "snd (updateOne_upsert m2 u2 coll)"] Cons.prems(3) one
    show ?thesis by (auto simp: op eq case_prod_beta)
  next
    case False
    with Cons.prems have "(m1, u1) \<in> set ops" by auto
    from Cons.IH[OF uq _ _ this] Cons.prems(2,3) show ?thesis
      by (simp add: op case_prod_beta)
  qed
qed

lemma syncMessages_run:
  assumes "rpc_up env" "mongo_up env" "l \<noteq> []" "length l < 2 ^ 53"
  shows "syncMessages env l coll =
     (Inr (Some \<lparr>totalOnChain = length l,
                 inserted = int (upsertedCount (fst (bulkWrite (bulkOps_of l) coll))),
                 updated = int (modifiedCount (fst (bulkWrite (bulkOps_of l) coll))),
                 unchanged = int (matchedCount (fst (bulkWrite (bulkOps_of l) coll)))
                             - int (modifiedCount (fst (bulkWrite (bulkOps_of l) coll))),
                 uniqueSenders = length (remdups (map sender (snd (bulkWrite (bulkOps_of l) coll))))\<rparr>),
      snd (bulkWrite (bulkOps_of l) coll))"
  using assms
  by (simp add: syncMessages_def getTotalMessageCount_def to_double_small sync_batches_bulkWrite
        add_result_def Let_def)

lemma resync:
  assumes "distinct (map (\<lambda>msg. Number_bigint (c_messageId msg)) l)"
    and "rpc_up env" "mongo_up env" "l \<noteq> []" "length l < 2 ^ 53"
  shows "\<exists>rep. syncMessages env l (snd (syncMessages env l coll))
                 = (Inr (Some rep), snd (syncMessages env l coll))
      \<and> totalOnChain rep = length l
      \<and> inserted rep = 0 \<and> updated rep = 0 \<and> unchanged rep = int (length l)"
proof -
  have d: "distinct (map fst (bulkOps_of l))"
    using assms(1) by (simp add: bulkOps_of_keys)
  have tw: "bulkWrite (bulkOps_of l) (snd (bulkWrite (bulkOps_of l) coll)) =
           (\<lparr>matchedCount = length (bulkOps_of l), modifiedCount = 0, upsertedCount = 0\<rparr>,
            snd (bulkWrite (bulkOps_of l) coll))"
    by (rule bulkWrite_twice[OF d bulkOps_of_keyed])
  show ?thesis
    by (simp add: syncMessages_run[OF assms(2-5)] tw) (simp add: bulkOps_of_def)
qed

lemma sync_stores_every_record:
  assumes "unique_messageId coll"
    and "distinct (map (\<lambda>msg. Number_bigint (c_messageId msg)) l)"
    and "rpc_up env" "mongo_up env" "l \<noteq> []" "length l < 2 ^ 53"
  shows "unique_messageId (snd (syncMessages env l coll))
    \<and> (\<forall>msg \<in> set l. \<exists>d.
          filter (\<lambda>x. messageId x = Number_bigint (c_messageId msg))
                 (snd (syncMessages env l coll)) = [d]
          \<and> sender d = toLowerCase (c_sender msg) \<and> content d = c_content msg
          \<and> timestamp d = Number_bigint (c_timestamp msg)
          \<and> createdAt d = Date_of_seconds (c_timestamp msg))"
proof (intro conjI ballI)
  have run: "snd (syncMessages env l coll) = snd (bulkWrite (bulkOps_of l) coll)"
    by (simp add: syncMessages_run[OF assms(3-6)])
  show "unique_messageId (snd (syncMessages env l coll))"
    unfolding run by (rule bulkWrite_unique[OF assms(1) bulkOps_of_keyed])
  fix msg assume "msg \<in> set l"
  then have mem: "(Number_bigint (c_messageId msg), sync_messageDoc msg) \<in> set (bulkOps_of l)"
    by (auto simp: bulkOps_of_def sync_messageDoc_def)
  have d: "distinct (map fst (bulkOps_of l))"
    using assms(2) by (simp add: bulkOps_of_keys)
  from bulkWrite_one_document[OF assms(1) d bulkOps_of_keyed mem] obtain old where
    "filter (\<lambda>x. messageId x = Number_bigint (c_messageId msg)) (snd (bulkWrite (bulkOps_of l) coll))
       = [apply_set (sync_messageDoc msg) old]"
    by blast
  then show "\<exists>d. filter (\<lambda>x. messageId x = Number_bigint (c_messageId msg))
                 (snd (syncMessages env l coll)) = [d]
          \<and> sender d = toLowerCase (c_sender msg) \<and> content d = c_content msg
          \<and> timestamp d = Number_bigint (c_timestamp msg)
          \<and> createdAt d = Date_of_seconds (c_timestamp msg)"
    unfolding run using apply_set_fields[of "sync_messageDoc msg" old]
    by (simp add: sync_messageDoc_def)
qed

text \<open>Two accepted requests with one \<open>messageId\<close>, one after the other.\<close>

lemma POST_twice_one_document:
  assumes "unique_messageId coll" "w_connects wenv" "w_update_error wenv = None"
    and "get_prop b1 ''messageId'' = Some (JNum mid)" "mid \<noteq> 0"
    and "get_prop b1 ''sender'' = Some (JStr a1)" "is_address a1"
    and "get_prop b1 ''content'' = Some (JStr c1)" "trim c1 \<noteq> []"
    and "get_prop b1 ''timestamp'' = Some (JNum ts1)" "0 < ts1"
    and "get_prop b2 ''messageId'' = Some (JNum mid)"
    and "get_prop b2 ''sender'' = Some (JStr a2)" "is_address a2"
    and "get_prop b2 ''content'' = Some (JStr c2)" "trim c2 \<noteq> []"
    and "get_prop b2 ''timestamp'' = Some (JNum ts2)" "0 < ts2"
  shows "filter (\<lambda>x. messageId x = mid)
           (snd (snd (POST_messages wenv now2 (Some b2)
              (snd (snd (POST_messages wenv now1 (Some b1) coll))))))
         = [messageDoc mid a2 c2 ts2 (get_prop b2 ''transactionHash'') now2]"
proof -
  let ?u1 = "messageDoc mid a1 c1 ts1 (get_prop b1 ''transactionHash'') now1"
  let ?u2 = "messageDoc mid a2 c2 ts2 (get_prop b2 ''transactionHash'') now2"
  have p1: "snd (snd (POST_messages wenv now1 (Some b1) coll)) = snd (updateOne_upsert mid ?u1 coll)"
    using POST_accepted[OF assms(4-11) assms(2,3), of now1 coll] by (simp add: Let_def)
  have p2: "snd (snd (POST_messages wenv now2 (Some b2) (snd (updateOne_upsert mid ?u1 coll))))
              = snd (updateOne_upsert mid ?u2 (snd (updateOne_upsert mid ?u1 coll)))"
    using POST_accepted[OF assms(12) assms(5) assms(13-18) assms(2,3),
                        of now2 "snd (updateOne_upsert mid ?u1 coll)"]
    by (simp add: Let_def)
  have k: "messageId ?u1 = mid" "messageId ?u2 = mid" "transactionHash ?u2 \<noteq> None"
    by (simp_all add: messageDoc_def)
  from upsert_twice_one_document[OF assms(1) k(1,2)] k(3) show ?thesis
    unfolding p1 p2 by auto
qed

text \<open>
  Claim C1, as the code has it. Ingestion: over a collection that satisfies the unique
  index on \<open>messageId\<close> and with the database up, two accepted \<open>POST /api/messages\<close>
  requests with the same \<open>messageId\<close>, one after the other, leave exactly one document
  with that \<open>messageId\<close>, and it is the document of the second request. Reconciler: for a
  ledger of \<open>N\<close> records, \<open>0 < N < 2 ^ 53\<close>, whose \<open>messageId\<close>s are pairwise distinct
  after the script's \<open>Number()\<close> conversion, with the chain and the database up, a run
  over such a collection keeps the unique index and leaves, for every ledger record,
  exactly one document with its \<open>messageId\<close>, whose sender, content, timestamp and
  \<open>createdAt\<close> are the ones the script computes from that record; a second run straight
  after it leaves the collection as it is and reports \<open>inserted = 0\<close>, \<open>updated = 0\<close>
  and \<open>unchanged = N\<close>. Ledger \<open>messageId\<close>s that are pairwise distinct and below
  \<open>2 ^ 53\<close> are pairwise distinct after the conversion.
\<close>

theorem upsert_idempotent_and_resync_converges:
  "(unique_messageId coll \<and> w_connects wenv \<and> w_update_error wenv = None
      \<and> get_prop b1 ''messageId'' = Some (JNum mid) \<and> mid \<noteq> 0
      \<and> get_prop b1 ''sender'' = Some (JStr a1) \<and> is_address a1
      \<and> get_prop b1 ''content'' = Some (JStr c1) \<and> trim c1 \<noteq> []
      \<and> get_prop b1 ''timestamp'' = Some (JNum ts1) \<and> 0 < ts1
      \<and> get_prop b2 ''messageId'' = Some (JNum mid)
      \<and> get_prop b2 ''sender'' = Some (JStr a2) \<and> is_address a2
      \<and> get_prop b2 ''content'' = Some (JStr c2) \<and> trim c2 \<noteq> []
      \<and> get_prop b2 ''timestamp'' = Some (JNum ts2) \<and> 0 < ts2
    \<longrightarrow> filter (\<lambda>x. messageId x = mid)
           (snd (snd (POST_messages wenv now2 (Some b2)
              (snd (snd (POST_messages wenv now1 (Some b1) coll))))))
         = [\<lparr>messageId = mid, sender = toLowerCase a2, content = trim c2, timestamp = ts2,
             transactionHash =
               Some (case get_prop b2 ''transactionHash'' of None \<Rightarrow> JNull | Some h \<Rightarrow> h),
             createdAt = now2\<rparr>])
   \<and> (unique_messageId coll
       \<and> distinct (map (\<lambda>msg. Number_bigint (c_messageId msg)) l)
       \<and> rpc_up env \<and> mongo_up env \<and> l \<noteq> [] \<and> length l < 2 ^ 53
    \<longrightarrow> unique_messageId (snd (syncMessages env l coll))
       \<and> (\<forall>msg \<in> set l. \<exists>d.
             filter (\<lambda>x. messageId x = Number_bigint (c_messageId msg))
                    (snd (syncMessages env l coll)) = [d]
             \<and> sender d = toLowerCase (c_sender msg) \<and> content d = c_content msg
             \<and> timestamp d = Number_bigint (c_timestamp msg)
             \<and> createdAt d = Date_of_seconds (c_timestamp msg))
       \<and> (\<exists>rep. syncMessages env l (snd (syncMessages env l coll))
                    = (Inr (Some rep), snd (syncMessages env l coll))
             \<and> totalOnChain rep = length l
             \<and> inserted rep = 0 \<and> updated rep = 0 \<and> unchanged rep = int (length l)))
   \<and> ((\<forall>msg \<in> set l. c_messageId msg < 2 ^ 53) \<and> distinct (map c_messageId l)
    \<longrightarrow> distinct (map (\<lambda>msg. Number_bigint (c_messageId msg)) l))"
proof (intro conjI impI)
  assume h: "unique_messageId coll \<and> w_connects wenv \<and> w_update_error wenv = None
      \<and> get_prop b1 ''messageId'' = Some (JNum mid) \<and> mid \<noteq> 0
      \<and> get_prop b1 ''sender'' = Some (JStr a1) \<and> is_address a1
      \<and> get_prop b1 ''content'' = Some (JStr c1) \<and> trim c1 \<noteq> []
      \<and> get_prop b1 ''timestamp'' = Some (JNum ts1) \<and> 0 < ts1
      \<and> get_prop b2 ''messageId'' = Some (JNum mid)
      \<and> get_prop b2 ''sender'' = Some (JStr a2) \<and> is_address a2
      \<and> get_prop b2 ''content'' = Some (JStr c2) \<and> trim c2 \<noteq> []
      \<and> get_prop b2 ''timestamp'' = Some (JNum ts2) \<and> 0 < ts2"
  have "filter (\<lambda>x. messageId x = mid)
           (snd (snd (POST_messages wenv now2 (Some b2)
              (snd (snd (POST_messages wenv now1 (Some b1) coll))))))
         = [messageDoc mid a2 c2 ts2 (get_prop b2 ''transactionHash'') now2]"
    using h by (intro POST_twice_one_document[where ?a1.0 = a1 and ?c1.0 = c1 and ?ts1.0 = ts1])
               simp_all
  then show "filter (\<lambda>x. messageId x = mid)
           (snd (snd (POST_messages wenv now2 (Some b2)
              (snd (snd (POST_messages wenv now1 (Some b1) coll))))))
         = [\<lparr>messageId = mid, sender = toLowerCase a2, content = trim c2, timestamp = ts2,
             transactionHash =
               Some (case get_prop b2 ''transactionHash'' of None \<Rightarrow> JNull | Some h \<Rightarrow> h),
             createdAt = now2\<rparr>]"
    by (simp add: messageDoc_def)
next
  assume h: "unique_messageId coll
       \<and> distinct (map (\<lambda>msg. Number_bigint (c_messageId msg)) l)
       \<and> rpc_up env \<and> mongo_up env \<and> l \<noteq> [] \<and> length l < 2 ^ 53"
  from h sync_stores_every_record[of coll l env]
  show "unique_messageId (snd (syncMessages env l coll))" by blast
  from h sync_stores_every_record[of coll l env]
  show "\<forall>msg \<in> set l. \<exists>d.
             filter (\<lambda>x. messageId x = Number_bigint (c_messageId msg))
                    (snd (syncMessages env l coll)) = [d]
             \<and> sender d = toLowerCase (c_sender msg) \<and> content d = c_content msg
             \<and> timestamp d = Number_bigint (c_timestamp msg)
             \<and> createdAt d = Date_of_seconds (c_timestamp msg)" by blast
  from h resync[of l env coll]
  show "\<exists>rep. syncMessages env l (snd (syncMessages env l coll))
                    = (Inr (Some rep), snd (syncMessages env l coll))
             \<and> totalOnChain rep = length l
             \<and> inserted rep = 0 \<and> updated rep = 0 \<and> unchanged rep = int (length l)" by blast
next
  assume "(\<forall>msg \<in> set l. c_messageId msg < 2 ^ 53) \<and> distinct (map c_messageId l)"
  then show "distinct (map (\<lambda>msg. Number_bigint (c_messageId msg)) l)"
    using small_ids_stay_distinct[of l] by blast
qed


lemma example_trims: "trim ''first'' \<noteq> [] \<and> trim '' second '' = ''second''"
  by code_simp

lemma example_ledger_distinct:
  "distinct (map (\<lambda>msg. Number_bigint (c_messageId msg)) ([\<lparr>c_messageId = 1, c_sender = ''0x22D74ADFB45147d7588aFA3ba0eF1c363b7dFcFF'', c_content = ''a'', c_timestamp = 100\<rparr>,
         \<lparr>c_messageId = 2, c_sender = ''0x22D74ADFB45147d7588aFA3ba0eF1c363b7dFcFF'', c_content = ''b'', c_timestamp = 200\<rparr>]))"
  by code_simp

theorem upsert_idempotent_and_resync_converges_witness:
  "filter (\<lambda>x. messageId x = 7)
      (snd (snd (POST_messages \<lparr>w_connects = True, w_update_error = None\<rparr> 2000 (Some (JObj [(''messageId'', JNum 7), (''sender'', JStr ''0x22D74ADFB45147d7588aFA3ba0eF1c363b7dFcFF''),
                   (''content'', JStr '' second ''), (''timestamp'', JNum 100),
                   (''transactionHash'', JStr ''0xabc'')]))
         (snd (snd (POST_messages \<lparr>w_connects = True, w_update_error = None\<rparr> 1000 (Some (JObj [(''messageId'', JNum 7), (''sender'', JStr ''0x22D74ADFB45147d7588aFA3ba0eF1c363b7dFcFF''),
                   (''content'', JStr ''first''), (''timestamp'', JNum 100)])) []))))))
     = [\<lparr>messageId = 7, sender = ''0x22d74adfb45147d7588afa3ba0ef1c363b7dfcff'', content = ''second'', timestamp = 100,
         transactionHash = Some (JStr ''0xabc''), createdAt = 2000\<rparr>]
   \<and> unique_messageId (snd (syncMessages \<lparr>rpc_up = True, mongo_up = True\<rparr> ([\<lparr>c_messageId = 1, c_sender = ''0x22D74ADFB45147d7588aFA3ba0eF1c363b7dFcFF'', c_content = ''a'', c_timestamp = 100\<rparr>,
         \<lparr>c_messageId = 2, c_sender = ''0x22D74ADFB45147d7588aFA3ba0eF1c363b7dFcFF'', c_content = ''b'', c_timestamp = 200\<rparr>]) []))
   \<and> (\<exists>d. filter (\<lambda>x. messageId x = Number_bigint 2)
                (snd (syncMessages \<lparr>rpc_up = True, mongo_up = True\<rparr> ([\<lparr>c_messageId = 1, c_sender = ''0x22D74ADFB45147d7588aFA3ba0eF1c363b7dFcFF'', c_content = ''a'', c_timestamp = 100\<rparr>,
         \<lparr>c_messageId = 2, c_sender = ''0x22D74ADFB45147d7588aFA3ba0eF1c363b7dFcFF'', c_content = ''b'', c_timestamp = 200\<rparr>]) [])) = [d]
         \<and> sender d = ''0x22d74adfb45147d7588afa3ba0ef1c363b7dfcff'' \<and> content d = ''b''
         \<and> timestamp d = Number_bigint 200 \<and> createdAt d = Date_of_seconds 200)
   \<and> (\<exists>rep. syncMessages \<lparr>rpc_up = True, mongo_up = True\<rparr> ([\<lparr>c_messageId = 1, c_sender = ''0x22D74ADFB45147d7588aFA3ba0eF1c363b7dFcFF'', c_content = ''a'', c_timestamp = 100\<rparr>,
         \<lparr>c_messageId = 2, c_sender = ''0x22D74ADFB45147d7588aFA3ba0eF1c363b7dFcFF'', c_content = ''b'', c_timestamp = 200\<rparr>]) (snd (syncMessages \<lparr>rpc_up = True, mongo_up = True\<rparr> ([\<lparr>c_messageId = 1, c_sender = ''0x22D74ADFB45147d7588aFA3ba0eF1c363b7dFcFF'', c_content = ''a'', c_timestamp = 100\<rparr>,
         \<lparr>c_messageId = 2, c_sender = ''0x22D74ADFB45147d7588aFA3ba0eF1c363b7dFcFF'', c_content = ''b'', c_timestamp = 200\<rparr>]) []))
                 = (Inr (Some rep), snd (syncMessages \<lparr>rpc_up = True, mongo_up = True\<rparr> ([\<lparr>c_messageId = 1, c_sender = ''0x22D74ADFB45147d7588aFA3ba0eF1c363b7dFcFF'', c_content = ''a'', c_timestamp = 100\<rparr>,
         \<lparr>c_messageId = 2, c_sender = ''0x22D74ADFB45147d7588aFA3ba0eF1c363b7dFcFF'', c_content = ''b'', c_timestamp = 200\<rparr>]) []))
          \<and> totalOnChain rep = 2
          \<and> inserted rep = 0 \<and> updated rep = 0 \<and> unchanged rep = 2)
   \<and> distinct (map (\<lambda>msg. Number_bigint (c_messageId msg)) ([\<lparr>c_messageId = 1, c_sender = ''0x22D74ADFB45147d7588aFA3ba0eF1c363b7dFcFF'', c_content = ''a'', c_timestamp = 100\<rparr>,
         \<lparr>c_messageId = 2, c_sender = ''0x22D74ADFB45147d7588aFA3ba0eF1c363b7dFcFF'', c_content = ''b'', c_timestamp = 200\<rparr>]))"
proof -
  note t = upsert_idempotent_and_resync_converges
             [of "[]" "\<lparr>w_connects = True, w_update_error = None\<rparr>" "JObj [(''messageId'', JNum 7), (''sender'', JStr ''0x22D74ADFB45147d7588aFA3ba0eF1c363b7dFcFF''),
                   (''content'', JStr ''first''), (''timestamp'', JNum 100)]" 7 "''0x22D74ADFB45147d7588aFA3ba0eF1c363b7dFcFF''" "''first''" 100
                 "JObj [(''messageId'', JNum 7), (''sender'', JStr ''0x22D74ADFB45147d7588aFA3ba0eF1c363b7dFcFF''),
                   (''content'', JStr '' second ''), (''timestamp'', JNum 100),
                   (''transactionHash'', JStr ''0xabc'')]" "''0x22D74ADFB45147d7588aFA3ba0eF1c363b7dFcFF''" "'' second ''" 100 2000 1000 "[\<lparr>c_messageId = 1, c_sender = ''0x22D74ADFB45147d7588aFA3ba0eF1c363b7dFcFF'', c_content = ''a'', c_timestamp = 100\<rparr>,
         \<lparr>c_messageId = 2, c_sender = ''0x22D74ADFB45147d7588aFA3ba0eF1c363b7dFcFF'', c_content = ''b'', c_timestamp = 200\<rparr>]" "\<lparr>rpc_up = True, mongo_up = True\<rparr>"]
  have u: "unique_messageId []"
    by (simp add: unique_messageId_def)
  have h1: "unique_messageId [] \<and> w_connects \<lparr>w_connects = True, w_update_error = None\<rparr> \<and> w_update_error \<lparr>w_connects = True, w_update_error = None\<rparr> = None
      \<and> get_prop (JObj [(''messageId'', JNum 7), (''sender'', JStr ''0x22D74ADFB45147d7588aFA3ba0eF1c363b7dFcFF''),
                   (''content'', JStr ''first''), (''timestamp'', JNum 100)]) ''messageId'' = Some (JNum 7) \<and> (7 :: rat) \<noteq> 0
      \<and> get_prop (JObj [(''messageId'', JNum 7), (''sender'', JStr ''0x22D74ADFB45147d7588aFA3ba0eF1c363b7dFcFF''),
                   (''content'', JStr ''first''), (''timestamp'', JNum 100)]) ''sender'' = Some (JStr ''0x22D74ADFB45147d7588aFA3ba0eF1c363b7dFcFF'') \<and> is_address ''0x22D74ADFB45147d7588aFA3ba0eF1c363b7dFcFF''
      \<and> get_prop (JObj [(''messageId'', JNum 7), (''sender'', JStr ''0x22D74ADFB45147d7588aFA3ba0eF1c363b7dFcFF''),
                   (''content'', JStr ''first''), (''timestamp'', JNum 100)]) ''content'' = Some (JStr ''first'') \<and> trim ''first'' \<noteq> []
      \<and> get_prop (JObj [(''messageId'', JNum 7), (''sender'', JStr ''0x22D74ADFB45147d7588aFA3ba0eF1c363b7dFcFF''),
                   (''content'', JStr ''first''), (''timestamp'', JNum 100)]) ''timestamp'' = Some (JNum 100) \<and> (0 :: rat) < 100
      \<and> get_prop (JObj [(''messageId'', JNum 7), (''sender'', JStr ''0x22D74ADFB45147d7588aFA3ba0eF1c363b7dFcFF''),
                   (''content'', JStr '' second ''), (''timestamp'', JNum 100),
                   (''transactionHash'', JStr ''0xabc'')]) ''messageId'' = Some (JNum 7)
      \<and> get_prop (JObj [(''messageId'', JNum 7), (''sender'', JStr ''0x22D74ADFB45147d7588aFA3ba0eF1c363b7dFcFF''),
                   (''content'', JStr '' second ''), (''timestamp'', JNum 100),
                   (''transactionHash'', JStr ''0xabc'')]) ''sender'' = Some (JStr ''0x22D74ADFB45147d7588aFA3ba0eF1c363b7dFcFF'') \<and> is_address ''0x22D74ADFB45147d7588aFA3ba0eF1c363b7dFcFF''
      \<and> get_prop (JObj [(''messageId'', JNum 7), (''sender'', JStr ''0x22D74ADFB45147d7588aFA3ba0eF1c363b7dFcFF''),
                   (''content'', JStr '' second ''), (''timestamp'', JNum 100),
                   (''transactionHash'', JStr ''0xabc'')]) ''content'' = Some (JStr '' second '') \<and> trim '' second '' \<noteq> []
      \<and> get_prop (JObj [(''messageId'', JNum 7), (''sender'', JStr ''0x22D74ADFB45147d7588aFA3ba0eF1c363b7dFcFF''),
                   (''content'', JStr '' second ''), (''timestamp'', JNum 100),
                   (''transactionHash'', JStr ''0xabc'')]) ''timestamp'' = Some (JNum 100) \<and> (0 :: rat) < 100"
    using u example_address_ok example_trims by simp
  have h2: "unique_messageId []
       \<and> distinct (map (\<lambda>msg. Number_bigint (c_messageId msg)) ([\<lparr>c_messageId = 1, c_sender = ''0x22D74ADFB45147d7588aFA3ba0eF1c363b7dFcFF'', c_content = ''a'', c_timestamp = 100\<rparr>,
         \<lparr>c_messageId = 2, c_sender = ''0x22D74ADFB45147d7588aFA3ba0eF1c363b7dFcFF'', c_content = ''b'', c_timestamp = 200\<rparr>]))
       \<and> rpc_up \<lparr>rpc_up = True, mongo_up = True\<rparr> \<and> mongo_up \<lparr>rpc_up = True, mongo_up = True\<rparr> \<and> [\<lparr>c_messageId = 1, c_sender = ''0x22D74ADFB45147d7588aFA3ba0eF1c363b7dFcFF'', c_content = ''a'', c_timestamp = 100\<rparr>,
         \<lparr>c_messageId = 2, c_sender = ''0x22D74ADFB45147d7588aFA3ba0eF1c363b7dFcFF'', c_content = ''b'', c_timestamp = 200\<rparr>] \<noteq> [] \<and> length ([\<lparr>c_messageId = 1, c_sender = ''0x22D74ADFB45147d7588aFA3ba0eF1c363b7dFcFF'', c_content = ''a'', c_timestamp = 100\<rparr>,
         \<lparr>c_messageId = 2, c_sender = ''0x22D74ADFB45147d7588aFA3ba0eF1c363b7dFcFF'', c_content = ''b'', c_timestamp = 200\<rparr>]) < 2 ^ 53"
    using u example_ledger_distinct by simp
  have h3: "(\<forall>msg \<in> set ([\<lparr>c_messageId = 1, c_sender = ''0x22D74ADFB45147d7588aFA3ba0eF1c363b7dFcFF'', c_content = ''a'', c_timestamp = 100\<rparr>,
         \<lparr>c_messageId = 2, c_sender = ''0x22D74ADFB45147d7588aFA3ba0eF1c363b7dFcFF'', c_content = ''b'', c_timestamp = 200\<rparr>]). c_messageId msg < 2 ^ 53) \<and> distinct (map c_messageId ([\<lparr>c_messageId = 1, c_sender = ''0x22D74ADFB45147d7588aFA3ba0eF1c363b7dFcFF'', c_content = ''a'', c_timestamp = 100\<rparr>,
         \<lparr>c_messageId = 2, c_sender = ''0x22D74ADFB45147d7588aFA3ba0eF1c363b7dFcFF'', c_content = ''b'', c_timestamp = 200\<rparr>]))"
    by simp
  have doc: "\<lparr>messageId = 7, sender = toLowerCase ''0x22D74ADFB45147d7588aFA3ba0eF1c363b7dFcFF'', content = trim '' second '',
               timestamp = 100,
               transactionHash =
                 Some (case get_prop (JObj [(''messageId'', JNum 7), (''sender'', JStr ''0x22D74ADFB45147d7588aFA3ba0eF1c363b7dFcFF''),
                   (''content'', JStr '' second ''), (''timestamp'', JNum 100),
                   (''transactionHash'', JStr ''0xabc'')]) ''transactionHash'' of
                         None \<Rightarrow> JNull | Some h \<Rightarrow> h),
               createdAt = 2000\<rparr>
             = \<lparr>messageId = 7, sender = ''0x22d74adfb45147d7588afa3ba0ef1c363b7dfcff'', content = ''second'', timestamp = 100,
                transactionHash = Some (JStr ''0xabc''), createdAt = 2000\<rparr>"
    using example_address_lower example_trims by simp
  have n: "length ([\<lparr>c_messageId = 1, c_sender = ''0x22D74ADFB45147d7588aFA3ba0eF1c363b7dFcFF'', c_content = ''a'', c_timestamp = 100\<rparr>,
         \<lparr>c_messageId = 2, c_sender = ''0x22D74ADFB45147d7588aFA3ba0eF1c363b7dFcFF'', c_content = ''b'', c_timestamp = 200\<rparr>]) = 2" by simp
  note a = t[THEN conjunct1, THEN mp, OF h1]
  note b = t[THEN conjunct2, THEN conjunct1, THEN mp, OF h2]
  note c = t[THEN conjunct2, THEN conjunct2, THEN mp, OF h3]
  from a doc have a': "filter (\<lambda>x. messageId x = 7)
      (snd (snd (POST_messages \<lparr>w_connects = True, w_update_error = None\<rparr> 2000 (Some (JObj [(''messageId'', JNum 7), (''sender'', JStr ''0x22D74ADFB45147d7588aFA3ba0eF1c363b7dFcFF''),
                   (''content'', JStr '' second ''), (''timestamp'', JNum 100),
                   (''transactionHash'', JStr ''0xabc'')]))
         (snd (snd (POST_messages \<lparr>w_connects = True, w_update_error = None\<rparr> 1000 (Some (JObj [(''messageId'', JNum 7), (''sender'', JStr ''0x22D74ADFB45147d7588aFA3ba0eF1c363b7dFcFF''),
                   (''content'', JStr ''first''), (''timestamp'', JNum 100)])) []))))))
     = [\<lparr>messageId = 7, sender = ''0x22d74adfb45147d7588afa3ba0ef1c363b7dfcff'', content = ''second'', timestamp = 100,
         transactionHash = Some (JStr ''0xabc''), createdAt = 2000\<rparr>]"
    by (simp only:)
  from b[THEN conjunct2, THEN conjunct2] n
  have b': "\<exists>rep. syncMessages \<lparr>rpc_up = True, mongo_up = True\<rparr> ([\<lparr>c_messageId = 1, c_sender = ''0x22D74ADFB45147d7588aFA3ba0eF1c363b7dFcFF'', c_content = ''a'', c_timestamp = 100\<rparr>,
         \<lparr>c_messageId = 2, c_sender = ''0x22D74ADFB45147d7588aFA3ba0eF1c363b7dFcFF'', c_content = ''b'', c_timestamp = 200\<rparr>]) (snd (syncMessages \<lparr>rpc_up = True, mongo_up = True\<rparr> ([\<lparr>c_messageId = 1, c_sender = ''0x22D74ADFB45147d7588aFA3ba0eF1c363b7dFcFF'', c_content = ''a'', c_timestamp = 100\<rparr>,
         \<lparr>c_messageId = 2, c_sender = ''0x22D74ADFB45147d7588aFA3ba0eF1c363b7dFcFF'', c_content = ''b'', c_timestamp = 200\<rparr>]) []))
                 = (Inr (Some rep), snd (syncMessages \<lparr>rpc_up = True, mongo_up = True\<rparr> ([\<lparr>c_messageId = 1, c_sender = ''0x22D74ADFB45147d7588aFA3ba0eF1c363b7dFcFF'', c_content = ''a'', c_timestamp = 100\<rparr>,
         \<lparr>c_messageId = 2, c_sender = ''0x22D74ADFB45147d7588aFA3ba0eF1c363b7dFcFF'', c_content = ''b'', c_timestamp = 200\<rparr>]) []))
          \<and> totalOnChain rep = 2
          \<and> inserted rep = 0 \<and> updated rep = 0 \<and> unchanged rep = 2"
    by (simp only: of_nat_numeral)
  have mem: "\<lparr>c_messageId = 2, c_sender = ''0x22D74ADFB45147d7588aFA3ba0eF1c363b7dFcFF'', c_content = ''b'', c_timestamp = 200\<rparr> \<in> set ([\<lparr>c_messageId = 1, c_sender = ''0x22D74ADFB45147d7588aFA3ba0eF1c363b7dFcFF'', c_content = ''a'', c_timestamp = 100\<rparr>,
         \<lparr>c_messageId = 2, c_sender = ''0x22D74ADFB45147d7588aFA3ba0eF1c363b7dFcFF'', c_content = ''b'', c_timestamp = 200\<rparr>])"
    by simp
  from b[THEN conjunct2, THEN conjunct1, THEN bspec, OF mem] example_address_lower
  have r: "\<exists>d. filter (\<lambda>x. messageId x = Number_bigint 2)
                (snd (syncMessages \<lparr>rpc_up = True, mongo_up = True\<rparr> ([\<lparr>c_messageId = 1, c_sender = ''0x22D74ADFB45147d7588aFA3ba0eF1c363b7dFcFF'', c_content = ''a'', c_timestamp = 100\<rparr>,
         \<lparr>c_messageId = 2, c_sender = ''0x22D74ADFB45147d7588aFA3ba0eF1c363b7dFcFF'', c_content = ''b'', c_timestamp = 200\<rparr>]) [])) = [d]
         \<and> sender d = ''0x22d74adfb45147d7588afa3ba0ef1c363b7dfcff'' \<and> content d = ''b''
         \<and> timestamp d = Number_bigint 200 \<and> createdAt d = Date_of_seconds 200"
    by simp
  from a' b[THEN conjunct1] r b' c show ?thesis
    by (intro conjI)
qed


lemma example_rounding:
  "to_double 9007199254740992 = 9007199254740992
   \<and> to_double 9007199254740993 = 9007199254740992"
  by (simp add: to_double_def bit_length.simps Let_def)

lemma example_big_ops:
  "bulkOps_of ([\<lparr>c_messageId = 9007199254740992, c_sender = ''0x22D74ADFB45147d7588aFA3ba0eF1c363b7dFcFF'', c_content = ''a'',
           c_timestamp = 100\<rparr>,
         \<lparr>c_messageId = 9007199254740993, c_sender = ''0x22D74ADFB45147d7588aFA3ba0eF1c363b7dFcFF'', c_content = ''b'',
           c_timestamp = 200\<rparr>]) = [(9007199254740992, \<lparr>messageId = 9007199254740992, sender = ''0x22d74adfb45147d7588afa3ba0ef1c363b7dfcff'', content = ''a'', timestamp = 100,
            transactionHash = None, createdAt = 100000\<rparr>), (9007199254740992, \<lparr>messageId = 9007199254740992, sender = ''0x22d74adfb45147d7588afa3ba0ef1c363b7dfcff'', content = ''b'', timestamp = 200,
            transactionHash = None, createdAt = 200000\<rparr>)]"
  using example_rounding example_address_lower
  by (simp add: bulkOps_of_def sync_messageDoc_def Number_bigint_def Date_of_seconds_def
        to_double_small)

lemma example_big_first_run:
  "syncMessages \<lparr>rpc_up = True, mongo_up = True\<rparr> ([\<lparr>c_messageId = 9007199254740992, c_sender = ''0x22D74ADFB45147d7588aFA3ba0eF1c363b7dFcFF'', c_content = ''a'',
           c_timestamp = 100\<rparr>,
         \<lparr>c_messageId = 9007199254740993, c_sender = ''0x22D74ADFB45147d7588aFA3ba0eF1c363b7dFcFF'', c_content = ''b'',
           c_timestamp = 200\<rparr>]) [] =
     (Inr (Some \<lparr>totalOnChain = 2, inserted = 1, updated = 1, unchanged = 0,
                  uniqueSenders = 1\<rparr>), [\<lparr>messageId = 9007199254740992, sender = ''0x22d74adfb45147d7588afa3ba0ef1c363b7dfcff'', content = ''b'', timestamp = 200,
            transactionHash = None, createdAt = 200000\<rparr>])"
proof -
  have e: "rpc_up \<lparr>rpc_up = True, mongo_up = True\<rparr>" "mongo_up \<lparr>rpc_up = True, mongo_up = True\<rparr>" "[\<lparr>c_messageId = 9007199254740992, c_sender = ''0x22D74ADFB45147d7588aFA3ba0eF1c363b7dFcFF'', c_content = ''a'',
           c_timestamp = 100\<rparr>,
         \<lparr>c_messageId = 9007199254740993, c_sender = ''0x22D74ADFB45147d7588aFA3ba0eF1c363b7dFcFF'', c_content = ''b'',
           c_timestamp = 200\<rparr>] \<noteq> []" "length ([\<lparr>c_messageId = 9007199254740992, c_sender = ''0x22D74ADFB45147d7588aFA3ba0eF1c363b7dFcFF'', c_content = ''a'',
           c_timestamp = 100\<rparr>,
         \<lparr>c_messageId = 9007199254740993, c_sender = ''0x22D74ADFB45147d7588aFA3ba0eF1c363b7dFcFF'', c_content = ''b'',
           c_timestamp = 200\<rparr>]) < 2 ^ 53"
    by simp_all
  show ?thesis
    unfolding syncMessages_run[OF e] example_big_ops
    by (simp add: apply_set_def)
qed

lemma example_big_second_run:
  "syncMessages \<lparr>rpc_up = True, mongo_up = True\<rparr> ([\<lparr>c_messageId = 9007199254740992, c_sender = ''0x22D74ADFB45147d7588aFA3ba0eF1c363b7dFcFF'', c_content = ''a'',
           c_timestamp = 100\<rparr>,
         \<lparr>c_messageId = 9007199254740993, c_sender = ''0x22D74ADFB45147d7588aFA3ba0eF1c363b7dFcFF'', c_content = ''b'',
           c_timestamp = 200\<rparr>]) [\<lparr>messageId = 9007199254740992, sender = ''0x22d74adfb45147d7588afa3ba0ef1c363b7dfcff'', content = ''b'', timestamp = 200,
            transactionHash = None, createdAt = 200000\<rparr>] =
     (Inr (Some \<lparr>totalOnChain = 2, inserted = 0, updated = 2, unchanged = 0,
                  uniqueSenders = 1\<rparr>), [\<lparr>messageId = 9007199254740992, sender = ''0x22d74adfb45147d7588afa3ba0ef1c363b7dfcff'', content = ''b'', timestamp = 200,
            transactionHash = None, createdAt = 200000\<rparr>])"
proof -
  have e: "rpc_up \<lparr>rpc_up = True, mongo_up = True\<rparr>" "mongo_up \<lparr>rpc_up = True, mongo_up = True\<rparr>" "[\<lparr>c_messageId = 9007199254740992, c_sender = ''0x22D74ADFB45147d7588aFA3ba0eF1c363b7dFcFF'', c_content = ''a'',
           c_timestamp = 100\<rparr>,
         \<lparr>c_messageId = 9007199254740993, c_sender = ''0x22D74ADFB45147d7588aFA3ba0eF1c363b7dFcFF'', c_content = ''b'',
           c_timestamp = 200\<rparr>] \<noteq> []" "length ([\<lparr>c_messageId = 9007199254740992, c_sender = ''0x22D74ADFB45147d7588aFA3ba0eF1c363b7dFcFF'', c_content = ''a'',
           c_timestamp = 100\<rparr>,
         \<lparr>c_messageId = 9007199254740993, c_sender = ''0x22D74ADFB45147d7588aFA3ba0eF1c363b7dFcFF'', c_content = ''b'',
           c_timestamp = 200\<rparr>]) < 2 ^ 53"
    by simp_all
  show ?thesis
    unfolding syncMessages_run[OF e] example_big_ops
    by (simp add: apply_set_def)
qed

text \<open>
  Claim C1 as stated fails. The ledger holds two records with the distinct \<open>messageId\<close>s
  \<open>2 ^ 53\<close> and \<open>2 ^ 53 + 1\<close> and different contents. \<open>Number()\<close> maps both to
  9007199254740992, so both upserts hit one document: the first run leaves one document,
  and the second run, against the unchanged ledger, reports \<open>updated = 2\<close> and
  \<open>unchanged = 0\<close> for \<open>N = 2\<close>.
\<close>

theorem resync_rewrites_ids_from_2_53_on:
  "distinct (map c_messageId ([\<lparr>c_messageId = 9007199254740992, c_sender = ''0x22D74ADFB45147d7588aFA3ba0eF1c363b7dFcFF'', c_content = ''a'',
           c_timestamp = 100\<rparr>,
         \<lparr>c_messageId = 9007199254740993, c_sender = ''0x22D74ADFB45147d7588aFA3ba0eF1c363b7dFcFF'', c_content = ''b'',
           c_timestamp = 200\<rparr>]))
   \<and> Number_bigint 9007199254740993 = 9007199254740992
   \<and> length (snd (syncMessages \<lparr>rpc_up = True, mongo_up = True\<rparr> ([\<lparr>c_messageId = 9007199254740992, c_sender = ''0x22D74ADFB45147d7588aFA3ba0eF1c363b7dFcFF'', c_content = ''a'',
           c_timestamp = 100\<rparr>,
         \<lparr>c_messageId = 9007199254740993, c_sender = ''0x22D74ADFB45147d7588aFA3ba0eF1c363b7dFcFF'', c_content = ''b'',
           c_timestamp = 200\<rparr>]) [])) = 1
   \<and> fst (syncMessages \<lparr>rpc_up = True, mongo_up = True\<rparr> ([\<lparr>c_messageId = 9007199254740992, c_sender = ''0x22D74ADFB45147d7588aFA3ba0eF1c363b7dFcFF'', c_content = ''a'',
           c_timestamp = 100\<rparr>,
         \<lparr>c_messageId = 9007199254740993, c_sender = ''0x22D74ADFB45147d7588aFA3ba0eF1c363b7dFcFF'', c_content = ''b'',
           c_timestamp = 200\<rparr>]) (snd (syncMessages \<lparr>rpc_up = True, mongo_up = True\<rparr> ([\<lparr>c_messageId = 9007199254740992, c_sender = ''0x22D74ADFB45147d7588aFA3ba0eF1c363b7dFcFF'', c_content = ''a'',
           c_timestamp = 100\<rparr>,
         \<lparr>c_messageId = 9007199254740993, c_sender = ''0x22D74ADFB45147d7588aFA3ba0eF1c363b7dFcFF'', c_content = ''b'',
           c_timestamp = 200\<rparr>]) [])))
      = Inr (Some \<lparr>totalOnChain = 2, inserted = 0, updated = 2, unchanged = 0,
                   uniqueSenders = 1\<rparr>)"
  using example_rounding
  by (simp add: example_big_first_run example_big_second_run Number_bigint_def)

end
